theory Spec2Isabelle
  imports Complex_Main
begin

section \<open>Box Model Sentinel: lint engine and ASCII visualizer\<close>

text \<open>
  A shallow embedding of the analysis core of Box Model Sentinel: the threshold policy,
  the CSS rule parser, the rule detectors of \<^verbatim>\<open>LintEngine\<close>, the conversion of issues
  into visualizer issues, and the ASCII visualizer with its text formatter.

  Strings of the parser and of the detectors are \<^typ>\<open>string\<close>. The strings of the
  visualizer are lists of UTF-16 code units, since its text formatter depends on them.
\<close>

subsection \<open>Strings\<close>

text \<open>
  A character is a UTF-16 code unit below 256, read through its code. The classes are
  those of JavaScript regular expressions without the \<^verbatim>\<open>u\<close> flag: \<^verbatim>\<open>\d\<close>, \<^verbatim>\<open>\w\<close> and
  \<^verbatim>\<open>\s\<close>; \<^verbatim>\<open>toLowerCase\<close> maps the capital letters of ASCII and of Latin-1 to their
  small letters.
\<close>

definition code :: "char \<Rightarrow> nat" where
  "code c = of_char c"

definition is_upper :: "char \<Rightarrow> bool" where
  "is_upper c = ((65 \<le> code c \<and> code c \<le> 90) \<or>
                 (192 \<le> code c \<and> code c \<le> 222 \<and> code c \<noteq> 215))"

fun set_bit5 :: "char \<Rightarrow> char" where
  "set_bit5 (Char b0 b1 b2 b3 b4 b5 b6 b7) = Char b0 b1 b2 b3 b4 True b6 b7"

definition lower_char :: "char \<Rightarrow> char" where
  "lower_char c = (if is_upper c then set_bit5 c else c)"

definition toLowerCase :: "string \<Rightarrow> string" where
  "toLowerCase s = map lower_char s"

definition is_space :: "char \<Rightarrow> bool" where
  "is_space c = (code c \<in> {9, 10, 11, 12, 13, 32, 160})"

definition is_digit :: "char \<Rightarrow> bool" where
  "is_digit c = (48 \<le> code c \<and> code c \<le> 57)"

definition is_word :: "char \<Rightarrow> bool" where
  "is_word c = (is_digit c \<or> (65 \<le> code c \<and> code c \<le> 90) \<or>
                (97 \<le> code c \<and> code c \<le> 122) \<or> code c = 95)"

definition trim :: "string \<Rightarrow> string" where
  "trim s = rev (dropWhile is_space (rev (dropWhile is_space s)))"

text \<open>\<^verbatim>\<open>s.split(sep)\<close> for a separator of one character.\<close>

fun split_on :: "char \<Rightarrow> string \<Rightarrow> string list" where
  "split_on sep [] = [[]]"
| "split_on sep (c # cs) =
     (if c = sep then [] # split_on sep cs
      else (case split_on sep cs of [] \<Rightarrow> [[c]] | h # t \<Rightarrow> (c # h) # t))"

fun starts_with :: "'a list \<Rightarrow> 'a list \<Rightarrow> bool" where
  "starts_with [] s = True"
| "starts_with (p # ps) [] = False"
| "starts_with (p # ps) (c # cs) = (p = c \<and> starts_with ps cs)"

text \<open>The first index at which \<open>sub\<close> occurs in \<open>s\<close>; \<open>None\<close> is JavaScript's \<open>-1\<close>.\<close>

fun index_of :: "'a list \<Rightarrow> 'a list \<Rightarrow> nat option" where
  "index_of sub [] = (if sub = [] then Some 0 else None)"
| "index_of sub (c # cs) =
     (if starts_with sub (c # cs) then Some 0 else map_option Suc (index_of sub cs))"

definition indexOf :: "string \<Rightarrow> string \<Rightarrow> nat \<Rightarrow> nat option" where
  "indexOf s sub from = map_option (\<lambda>k. k + from) (index_of sub (drop from s))"

definition includes_str :: "'a list \<Rightarrow> 'a list \<Rightarrow> bool" where
  "includes_str s sub = (index_of sub s \<noteq> None)"

definition slice :: "string \<Rightarrow> nat \<Rightarrow> nat \<Rightarrow> string" where
  "slice s a b = take (b - a) (drop a s)"

text \<open>\<^verbatim>\<open>s.replace(pat, '')\<close> with a string pattern: the first occurrence is removed.\<close>

definition remove_first :: "string \<Rightarrow> string \<Rightarrow> string" where
  "remove_first pat s =
     (case index_of pat s of None \<Rightarrow> s | Some k \<Rightarrow> take k s @ drop (k + length pat) s)"

subsection \<open>Numbers and configuration\<close>

text \<open>
  A JavaScript number is a double: a finite value, kept as the rational that it
  denotes, or one of the three non-finite ones.
\<close>

datatype jsnum = Fin rat | NaN | PosInf | NegInf

fun isFinite :: "jsnum \<Rightarrow> bool" where
  "isFinite (Fin _) = True"
| "isFinite _ = False"

text \<open>\<^verbatim>\<open>a > b\<close> for a number \<open>a\<close> and a finite \<open>b\<close>, and for two numbers.\<close>

fun js_gt :: "jsnum \<Rightarrow> rat \<Rightarrow> bool" where
  "js_gt (Fin a) b = (a > b)"
| "js_gt NaN b = False"
| "js_gt PosInf b = True"
| "js_gt NegInf b = False"

fun js_greater :: "jsnum \<Rightarrow> jsnum \<Rightarrow> bool" where
  "js_greater a (Fin b) = js_gt a b"
| "js_greater (Fin a) NegInf = True"
| "js_greater PosInf NegInf = True"
| "js_greater a b = False"

text \<open>
  The conversion of a decimal numeral to a number rounds its value to the nearest
  double, to the even one of two nearest. A positive rational \<open>q\<close> with
  \<open>l = floor_log2 q\<close> lies between \<^verbatim>\<open>2^l\<close> and \<^verbatim>\<open>2^(l+1)\<close>; the doubles of that range are
  the multiples of \<^verbatim>\<open>2^(l-52)\<close>, and the doubles below \<^verbatim>\<open>2^(-1022)\<close> are the multiples
  of \<^verbatim>\<open>2^(-1074)\<close>. A rounded value of \<^verbatim>\<open>2^1024\<close> or more is \<^verbatim>\<open>Infinity\<close>.
\<close>

function bit_length :: "int \<Rightarrow> int" where
  "bit_length n = (if n \<le> 0 then 0 else 1 + bit_length (n div 2))"
  by pat_completeness auto
termination
  by (relation "measure nat") auto

declare bit_length.simps [simp del]

definition pow2 :: "int \<Rightarrow> rat" where
  "pow2 e = (if 0 \<le> e then 2 ^ nat e else 1 / 2 ^ nat (- e))"

definition floor_log2 :: "rat \<Rightarrow> int" where
  "floor_log2 q =
     (let k = bit_length (fst (quotient_of q)) - bit_length (snd (quotient_of q))
      in if pow2 k \<le> q then k else k - 1)"

definition round_half_even :: "rat \<Rightarrow> int" where
  "round_half_even t =
     (if t - of_int \<lfloor>t\<rfloor> > 1 / 2 \<or> (t - of_int \<lfloor>t\<rfloor> = 1 / 2 \<and> odd \<lfloor>t\<rfloor>)
      then \<lfloor>t\<rfloor> + 1 else \<lfloor>t\<rfloor>)"

definition ulp_exponent :: "rat \<Rightarrow> int" where
  "ulp_exponent q = max (floor_log2 q - 52) (- 1074)"

definition round_to :: "rat \<Rightarrow> int \<Rightarrow> rat" where
  "round_to q e = of_int (round_half_even (q / pow2 e)) * pow2 e"

definition round_positive :: "rat \<Rightarrow> jsnum" where
  "round_positive q =
     (if 1024 \<le> floor_log2 (round_to q (ulp_exponent q)) then PosInf
      else Fin (round_to q (ulp_exponent q)))"

definition to_double :: "rat \<Rightarrow> jsnum" where
  "to_double q =
     (if q = 0 then Fin 0
      else if 0 < q then round_positive q
      else (case round_positive (- q) of Fin v \<Rightarrow> Fin (- v) | _ \<Rightarrow> NegInf))"

definition digit_val :: "char \<Rightarrow> int" where
  "digit_val c = int (code c) - 48"

text \<open>The number that a string of decimal digits denotes.\<close>

definition digits_int :: "string \<Rightarrow> int" where
  "digits_int ds = foldl (\<lambda>a c. 10 * a + digit_val c) 0 ds"

text \<open>\<^verbatim>\<open>parseInt(ds, 10)\<close> on a string of decimal digits that is not empty.\<close>

definition parseInt :: "string \<Rightarrow> jsnum" where
  "parseInt ds = to_double (of_int (digits_int ds))"

text \<open>\<^verbatim>\<open>parseFloat\<close> on a string of the form \<^verbatim>\<open>\d+(\.\d+)?\<close>.\<close>

definition parseFloat :: "string \<Rightarrow> jsnum" where
  "parseFloat s =
     (let ip = takeWhile is_digit s in
      case dropWhile is_digit s of
        d # fr \<Rightarrow> to_double (of_int (digits_int ip) + of_int (digits_int fr) / 10 ^ length fr)
      | [] \<Rightarrow> to_double (of_int (digits_int ip)))"

text \<open>
  The configuration of \<^verbatim>\<open>LintEngine\<close>. The thresholds are settings read as JSON
  numbers, hence finite. \<open>or_zero\<close> is the \<^verbatim>\<open>|| 0\<close> applied to each of them.
\<close>

record config =
  mode :: string
  fixedWidthThreshold :: rat
  fixedHeightThreshold :: rat
  fixedSpacingThreshold :: rat
  ignoreSelectors :: "string list"

definition default_config :: config where
  "default_config = \<lparr> mode = ''strict'', fixedWidthThreshold = 320,
     fixedHeightThreshold = 320, fixedSpacingThreshold = 24, ignoreSelectors = [] \<rparr>"

definition or_zero :: "rat \<Rightarrow> rat" where
  "or_zero x = (if x = 0 then 0 else x)"

text \<open>\<^verbatim>\<open>(this.config.mode || 'strict').toLowerCase()\<close>\<close>

definition effective_mode :: "config \<Rightarrow> string" where
  "effective_mode cfg = toLowerCase (if mode cfg = [] then ''strict'' else mode cfg)"

subsection \<open>Threshold policy\<close>

definition shouldReportFixedValue :: "config \<Rightarrow> string \<Rightarrow> jsnum \<Rightarrow> bool" where
  "shouldReportFixedValue cfg type numericValue =
     (if effective_mode cfg = ''strict'' then True
      else if \<not> isFinite numericValue then True
      else if type = ''width'' \<or> type = ''grid-track'' \<or> type = ''flex-basis''
        then js_gt numericValue (or_zero (fixedWidthThreshold cfg))
      else if type = ''height''
        then js_gt numericValue (or_zero (fixedHeightThreshold cfg))
      else if type = ''spacing''
        then js_gt numericValue (or_zero (fixedSpacingThreshold cfg))
      else True)"

text \<open>The threshold the specification assigns to each kind.\<close>

definition kind_threshold :: "config \<Rightarrow> string \<Rightarrow> rat" where
  "kind_threshold cfg k =
     (if k = ''height'' then fixedHeightThreshold cfg
      else if k = ''spacing'' then fixedSpacingThreshold cfg
      else fixedWidthThreshold cfg)"

definition threshold_kinds :: "string list" where
  "threshold_kinds = [''width'', ''height'', ''spacing'', ''flex-basis'', ''grid-track'']"

subsection \<open>The CSS parser\<close>

text \<open>
  \<^verbatim>\<open>s.replace(/\/\*[\s\S]*?\*\//g, '')\<close>: at an opening \<^verbatim>\<open>/*\<close> the text up to the
  first \<^verbatim>\<open>*/\<close> that starts at least two characters later is removed; an opening
  without a closing stays.
\<close>

function stripComments :: "string \<Rightarrow> string" where
  "stripComments [] = []"
| "stripComments (c # cs) =
     (if starts_with ''/*'' (c # cs)
      then (case index_of ''*/'' (drop 1 cs) of
              Some k \<Rightarrow> stripComments (drop (k + 3) cs)
            | None \<Rightarrow> c # stripComments cs)
      else c # stripComments cs)"
  by pat_completeness auto
termination
  by (relation "measure length") auto

declare stripComments.simps [simp del]

text \<open>
  A declaration block is an object filled in source order: a key keeps the place of
  its first assignment and the value of its last one. An assignment of a string to the
  key \<^verbatim>\<open>__proto__\<close> creates no property.
\<close>

type_synonym declarations = "(string \<times> string) list"

fun obj_set :: "string \<Rightarrow> 'v \<Rightarrow> (string \<times> 'v) list \<Rightarrow> (string \<times> 'v) list" where
  "obj_set k v [] = [(k, v)]"
| "obj_set k v (p # ps) = (if fst p = k then (k, v) # ps else p # obj_set k v ps)"

definition parseDeclaration :: "declarations \<Rightarrow> string \<Rightarrow> declarations" where
  "parseDeclaration obj line0 =
     (let line = trim line0 in
      if line = [] then obj
      else (case index_of '':'' line of
              None \<Rightarrow> obj
            | Some i \<Rightarrow>
                let k = toLowerCase (trim (take i line));
                    v = trim (drop (i + 1) line)
                in if k = ''__proto__'' then obj else obj_set k v obj))"

definition parseDeclarations :: "string \<Rightarrow> declarations" where
  "parseDeclarations block = foldl parseDeclaration [] (split_on CHR '';'' block)"

text \<open>A parsed rule; \<open>atRule\<close> is the condition of the enclosing media block, if any.\<close>

record rule =
  selector :: string
  declarations :: declarations
  atRule :: "string option"

record mediaBlock =
  full :: string
  condition :: string
  body :: string

text \<open>The inner loop of the media extraction: brace matching from index \<open>j\<close>.\<close>

function brace_scan :: "string \<Rightarrow> nat \<Rightarrow> nat \<Rightarrow> nat" where
  "brace_scan s j depth =
     (if j < length s \<and> depth > 0
      then brace_scan s (j + 1)
             (if s ! j = CHR ''{'' then depth + 1
              else if s ! j = CHR ''}'' then depth - 1 else depth)
      else j)"
  by pat_completeness auto
termination
  by (relation "measure (\<lambda>(s, j, depth). length s - j)") auto

declare brace_scan.simps [simp del]

text \<open>The outer loop: one media block for each \<^verbatim>\<open>@media\<close> found from index \<open>i\<close> on.\<close>

function media_loop :: "string \<Rightarrow> nat \<Rightarrow> mediaBlock list" where
  "media_loop s i =
     (if i < length s
      then (case indexOf s ''@media'' i of
              None \<Rightarrow> []
            | Some idx \<Rightarrow>
               (case indexOf s ''{'' (idx + 6) of
                  None \<Rightarrow> []
                | Some braceOpen \<Rightarrow>
                    \<lparr> full = slice s idx (brace_scan s (braceOpen + 1) 1),
                      condition = trim (slice s (idx + 6) braceOpen),
                      body = slice s (braceOpen + 1) (brace_scan s (braceOpen + 1) 1 - 1) \<rparr>
                    # media_loop s (brace_scan s (braceOpen + 1) 1)))
      else [])"
  by pat_completeness auto
termination
proof (relation "measure (\<lambda>(s, i). length s - i)")
  show "wf (measure (\<lambda>(s, i). length s - i))" by simp
next
  fix s :: string and i idx braceOpen :: nat
  assume lt: "i < length s"
    and a: "indexOf s ''@media'' i = Some idx"
    and b: "indexOf s ''{'' (idx + 6) = Some braceOpen"
  have scan: "j \<le> brace_scan t j d" for t j d
  proof (induction t j d rule: brace_scan.induct)
    case (1 t j depth)
    show ?case
    proof (cases "j < length t \<and> depth > 0")
      case True
      have "brace_scan t j depth = brace_scan t (j + 1)
             (if t ! j = CHR ''{'' then depth + 1
              else if t ! j = CHR ''}'' then depth - 1 else depth)"
        using True by (subst brace_scan.simps) simp
      moreover have "j + 1 \<le> brace_scan t (j + 1)
             (if t ! j = CHR ''{'' then depth + 1
              else if t ! j = CHR ''}'' then depth - 1 else depth)"
        using "1.IH" True by simp
      ultimately show ?thesis by simp
    next
      case False
      then show ?thesis by (subst brace_scan.simps) auto
    qed
  qed
  from a have "i \<le> idx" by (auto simp: indexOf_def)
  moreover from b have "idx + 6 \<le> braceOpen" by (auto simp: indexOf_def)
  moreover have "braceOpen + 1 \<le> brace_scan s (braceOpen + 1) 1" by (rule scan)
  ultimately have "i < brace_scan s (braceOpen + 1) 1" by linarith
  with lt show "((s, brace_scan s (braceOpen + 1) 1), (s, i)) \<in> measure (\<lambda>(s, i). length s - i)"
    by simp
qed

declare media_loop.simps [simp del]

text \<open>
  The loop over the matches of \<^verbatim>\<open>/([^{]+)\{([^}]*)\}/g\<close>. A match starts at the first
  character that is not an opening brace (\<open>s1\<close>), its selector runs to the next opening
  brace (the head of \<open>s2\<close>) and its block to the next closing brace (the head of
  \<open>s3\<close>); the search continues after that brace. With no opening or no closing brace
  left there is no further match.
\<close>

function rule_loop :: "string option \<Rightarrow> string \<Rightarrow> rule list" where
  "rule_loop tag s =
     (let s1 = dropWhile (\<lambda>c. c = CHR ''{'') s;
          s2 = dropWhile (\<lambda>x. x \<noteq> CHR ''{'') s1;
          s3 = dropWhile (\<lambda>x. x \<noteq> CHR ''}'') (tl s2)
      in if s1 = [] \<or> s2 = [] \<or> s3 = [] then []
         else \<lparr> selector = trim (takeWhile (\<lambda>x. x \<noteq> CHR ''{'') s1),
                declarations = parseDeclarations (takeWhile (\<lambda>x. x \<noteq> CHR ''}'') (tl s2)),
                atRule = tag \<rparr>
              # rule_loop tag (tl s3))"
  by pat_completeness auto
termination
proof (relation "measure (\<lambda>(tag, s). length s)")
  show "wf (measure (\<lambda>(tag, s). length s))" by simp
next
  fix tag :: "string option" and s s1 s2 s3 :: string
  assume a: "s1 = dropWhile (\<lambda>c. c = CHR ''{'') s"
    and b: "s2 = dropWhile (\<lambda>x. x \<noteq> CHR ''{'') s1"
    and c: "s3 = dropWhile (\<lambda>x. x \<noteq> CHR ''}'') (tl s2)"
    and n: "\<not> (s1 = [] \<or> s2 = [] \<or> s3 = [])"
  have "length s3 \<le> length (tl s2)" unfolding c by (rule length_dropWhile_le)
  moreover have "length s2 \<le> length s1" unfolding b by (rule length_dropWhile_le)
  moreover have "length s1 \<le> length s" unfolding a by (rule length_dropWhile_le)
  moreover have "length (tl s3) < length s3" and "length (tl s2) < length s2"
    using n by simp_all
  ultimately have "length (tl s3) < length s" by linarith
  then show "((tag, tl s3), (tag, s)) \<in> measure (\<lambda>(tag, s). length s)" by simp
qed

declare rule_loop.simps [simp del]

definition parseRules :: "string \<Rightarrow> rule list" where
  "parseRules raw =
     (let s = stripComments raw;
          mediaBlocks = media_loop s 0;
          rest = foldl (\<lambda>r mb. remove_first (full mb) r) s mediaBlocks
      in rule_loop None rest
         @ concat (map (\<lambda>mb. rule_loop (Some (condition mb)) (body mb)) mediaBlocks))"









subsection \<open>Regular expressions of the detectors\<close>

text \<open>
  Each pattern of the source is a function on the text that starts at the tried
  position; a search tries the positions from left to right, as the engine does.
  \<open>ci\<close> is the flag \<^verbatim>\<open>i\<close>.
\<close>

definition is_px :: "bool \<Rightarrow> string \<Rightarrow> bool" where
  "is_px ci r =
     (case r of
        p # x # _ \<Rightarrow>
          (if ci then lower_char p = CHR ''p'' \<and> lower_char x = CHR ''x''
           else p = CHR ''p'' \<and> x = CHR ''x'')
      | _ \<Rightarrow> False)"

text \<open>\<^verbatim>\<open>\b\<close> after a word character: the text ends or goes on with a non-word character.\<close>

definition word_end :: "string \<Rightarrow> bool" where
  "word_end r = (case r of [] \<Rightarrow> True | d # _ \<Rightarrow> \<not> is_word d)"

text \<open>
  The first position at which \<open>m\<close> matches. \<open>first_match_b\<close> tries only the positions
  that follow the start or a non-word character: \<^verbatim>\<open>\b\<close> before a word character.
\<close>

fun first_match :: "(string \<Rightarrow> 'a option) \<Rightarrow> string \<Rightarrow> 'a option" where
  "first_match m [] = m []"
| "first_match m (c # cs) =
     (case m (c # cs) of Some r \<Rightarrow> Some r | None \<Rightarrow> first_match m cs)"

fun first_match_b :: "(string \<Rightarrow> 'a option) \<Rightarrow> bool \<Rightarrow> string \<Rightarrow> 'a option" where
  "first_match_b m pw [] = None"
| "first_match_b m pw (c # cs) =
     (case (if pw then None else m (c # cs)) of
        Some r \<Rightarrow> Some r
      | None \<Rightarrow> first_match_b m (is_word c) cs)"

text \<open>\<^verbatim>\<open>\d+px\b\<close> at the start of the text, and the test of \<^verbatim>\<open>/\b\d+px\b/\<close>.\<close>

definition px_token_here :: "bool \<Rightarrow> string \<Rightarrow> unit option" where
  "px_token_here ci s =
     (if takeWhile is_digit s \<noteq> [] \<and> is_px ci (dropWhile is_digit s)
         \<and> word_end (drop 2 (dropWhile is_digit s))
      then Some () else None)"

definition has_px_token :: "bool \<Rightarrow> string \<Rightarrow> bool" where
  "has_px_token ci s = (first_match_b (px_token_here ci) False s \<noteq> None)"

text \<open>
  \<^verbatim>\<open>\d+(?:\.\d+)?\<close> at the start of the text: the number with its fraction first,
  then the number alone, each with the text that follows it.
\<close>

definition float_candidates :: "string \<Rightarrow> (string \<times> string) list" where
  "float_candidates s =
     (let d1 = takeWhile is_digit s; r1 = dropWhile is_digit s in
      if d1 = [] then []
      else (case r1 of
              c # r2 \<Rightarrow>
                (if c = CHR ''.'' \<and> takeWhile is_digit r2 \<noteq> []
                 then [(d1 @ c # takeWhile is_digit r2, dropWhile is_digit r2)] else [])
            | [] \<Rightarrow> []) @ [(d1, r1)])"

definition float_px_here :: "bool \<Rightarrow> string \<Rightarrow> string option" where
  "float_px_here wb s =
     (case filter (\<lambda>(n, r). is_px True r \<and> (wb \<longrightarrow> word_end (drop 2 r))) (float_candidates s) of
        (n, r) # _ \<Rightarrow> Some n
      | [] \<Rightarrow> None)"

text \<open>\<^verbatim>\<open>/(\d+(?:\.\d+)?)px/i.exec(v)\<close>: the first capture group.\<close>

definition exec_float_px :: "string \<Rightarrow> string option" where
  "exec_float_px v = first_match (float_px_here False) v"

text \<open>\<^verbatim>\<open>m ? parseFloat(m[1]) : NaN\<close>\<close>

definition num_of :: "string option \<Rightarrow> jsnum" where
  "num_of m = (case m of Some t \<Rightarrow> parseFloat t | None \<Rightarrow> NaN)"

text \<open>\<^verbatim>\<open>/(\d+)px/i.exec(v)\<close> and \<^verbatim>\<open>cond.match(/(\d+)\s*px/i)\<close>: the first capture group.\<close>

definition int_px_here :: "string \<Rightarrow> string option" where
  "int_px_here t =
     (if takeWhile is_digit t \<noteq> [] \<and> is_px True (dropWhile is_digit t)
      then Some (takeWhile is_digit t) else None)"

definition exec_int_px :: "string \<Rightarrow> string option" where
  "exec_int_px v = first_match int_px_here v"

definition int_spx_here :: "string \<Rightarrow> string option" where
  "int_spx_here t =
     (if takeWhile is_digit t \<noteq> [] \<and> is_px True (dropWhile is_space (dropWhile is_digit t))
      then Some (takeWhile is_digit t) else None)"

definition match_int_spx :: "string \<Rightarrow> string option" where
  "match_int_spx cond = first_match int_spx_here cond"

text \<open>A pattern of plain lower-case text under the flag \<^verbatim>\<open>i\<close>, as \<^verbatim>\<open>/visible/i.test(v)\<close>.\<close>

definition test_ci :: "string \<Rightarrow> string \<Rightarrow> bool" where
  "test_ci pat v = includes_str (toLowerCase v) pat"

text \<open>\<^verbatim>\<open>/\b100vw\b/i.test(v)\<close>\<close>

definition vw100_here :: "string \<Rightarrow> unit option" where
  "vw100_here s =
     (if toLowerCase (take 5 s) = ''100vw'' \<and> word_end (drop 5 s) then Some () else None)"

definition has_100vw :: "string \<Rightarrow> bool" where
  "has_100vw v = (first_match_b vw100_here False v \<noteq> None)"

text \<open>
  \<^verbatim>\<open>0\s+0\s+\<close> at the start of the text: what follows it. Then the test of
  \<^verbatim>\<open>/\b0\s+0\s+\d+px\b/i\<close> and the capture of \<^verbatim>\<open>/\b0\s+0\s+(\d+(?:\.\d+)?)px\b/i\<close>.
\<close>

definition zero_zero_here :: "string \<Rightarrow> string option" where
  "zero_zero_here s =
     (case s of
        z # r \<Rightarrow>
          (if z = CHR ''0'' \<and> takeWhile is_space r \<noteq> []
           then (case dropWhile is_space r of
                   z2 # r2 \<Rightarrow>
                     (if z2 = CHR ''0'' \<and> takeWhile is_space r2 \<noteq> []
                      then Some (dropWhile is_space r2) else None)
                 | [] \<Rightarrow> None)
           else None)
      | [] \<Rightarrow> None)"

definition flex_shorthand_here :: "string \<Rightarrow> unit option" where
  "flex_shorthand_here s =
     (case zero_zero_here s of Some t \<Rightarrow> px_token_here True t | None \<Rightarrow> None)"

definition has_flex_shorthand :: "string \<Rightarrow> bool" where
  "has_flex_shorthand v = (first_match_b flex_shorthand_here False v \<noteq> None)"

definition flex_shorthand_num_here :: "string \<Rightarrow> string option" where
  "flex_shorthand_num_here s =
     (case zero_zero_here s of Some t \<Rightarrow> float_px_here True t | None \<Rightarrow> None)"

definition exec_flex_shorthand :: "string \<Rightarrow> string option" where
  "exec_flex_shorthand v = first_match_b flex_shorthand_num_here False v"

text \<open>
  All matches of \<^verbatim>\<open>/(\d+(?:\.\d+)?)px/ig\<close>, as the loop of \<^verbatim>\<open>extractNums\<close> collects
  them; the counter is the number of characters of the last match still to be passed.
\<close>

fun all_float_px :: "nat \<Rightarrow> string \<Rightarrow> string list" where
  "all_float_px k [] = []"
| "all_float_px (Suc k) (c # cs) = all_float_px k cs"
| "all_float_px 0 (c # cs) =
     (case float_px_here False (c # cs) of
        Some n \<Rightarrow> n # all_float_px (length n + 1) cs
      | None \<Rightarrow> all_float_px 0 cs)"

definition extractNums :: "string \<Rightarrow> jsnum list" where
  "extractNums v = map parseFloat (all_float_px 0 v)"

text \<open>
  \<^verbatim>\<open>/width:\s*(\d+(\.\d+)?)px/i\<close> and its twin for the height, of the text path: the
  text of the whole match.
\<close>

definition decl_px_here :: "string \<Rightarrow> string \<Rightarrow> string option" where
  "decl_px_here prop s =
     (if toLowerCase (take (length prop + 1) s) = prop @ '':''
      then (let r = drop (length prop + 1) s in
            case float_px_here False (dropWhile is_space r) of
              Some n \<Rightarrow>
                Some (take (length prop + 1 + length (takeWhile is_space r) + length n + 2) s)
            | None \<Rightarrow> None)
      else None)"

definition match_decl_px :: "string \<Rightarrow> string \<Rightarrow> string option" where
  "match_decl_px prop line = first_match (decl_px_here prop) line"

subsection \<open>Objects used as dictionaries\<close>

text \<open>
  \<^verbatim>\<open>Object.keys\<close> lists the keys that are array indices first, in ascending order,
  then the other keys in the order of their insertion. A key that names a member of
  \<^verbatim>\<open>Object.prototype\<close> reads that member when the object has no property of its own.
\<close>

definition is_array_index :: "string \<Rightarrow> bool" where
  "is_array_index k =
     (k \<noteq> [] \<and> list_all is_digit k \<and> (k = ''0'' \<or> hd k \<noteq> CHR ''0'')
      \<and> digits_int k \<le> 4294967294)"

definition js_keys :: "(string \<times> 'v) list \<Rightarrow> string list" where
  "js_keys obj =
     sort_key digits_int (filter is_array_index (map fst obj))
     @ filter (\<lambda>k. \<not> is_array_index k) (map fst obj)"

definition proto_keys :: "string list" where
  "proto_keys = [''constructor'', ''__defineGetter__'', ''__defineSetter__'',
     ''hasOwnProperty'', ''__lookupGetter__'', ''__lookupSetter__'', ''isPrototypeOf'',
     ''propertyIsEnumerable'', ''toString'', ''valueOf'', ''__proto__'', ''toLocaleString'']"

text \<open>\<^verbatim>\<open>if (!obj[k]) obj[k] = []; obj[k].push(v)\<close> for a key that is no prototype member.\<close>

fun group_push :: "string \<Rightarrow> 'v \<Rightarrow> (string \<times> 'v list) list \<Rightarrow> (string \<times> 'v list) list" where
  "group_push k v [] = [(k, [v])]"
| "group_push k v (p # ps) =
     (if fst p = k then (k, snd p @ [v]) # ps else p # group_push k v ps)"

datatype error = TypeError

subsection \<open>Issues\<close>

text \<open>
  An issue as the detectors create it. \<open>issue_name\<close>, \<open>issue_value\<close> and
  \<open>issue_selector\<close> are the fields \<^verbatim>\<open>issue\<close>, \<^verbatim>\<open>value\<close> and \<^verbatim>\<open>selector\<close>; a field
  that a detector does not set is \<open>None\<close>. The mapping to lines fills \<open>suggestion\<close>.
\<close>

record issue =
  issue_name :: string
  explanation :: string
  viewportImpact :: string
  severity :: string
  correction :: string
  property :: "string option"
  issue_value :: "string option"
  issue_selector :: "string option"
  suggestion :: "string option"
  lineNumber :: "nat option"

definition new_issue :: "string \<Rightarrow> string \<Rightarrow> string \<Rightarrow> string \<Rightarrow> string \<Rightarrow> string \<Rightarrow> issue" where
  "new_issue name expl impact sev corr sel =
     \<lparr> issue_name = name, explanation = expl, viewportImpact = impact, severity = sev,
       correction = corr, property = None, issue_value = None, issue_selector = Some sel,
       suggestion = None, lineNumber = None \<rparr>"

subsection \<open>The detectors\<close>

text \<open>
  \<^verbatim>\<open>r.declarations[k]\<close>; a missing declaration reads as the empty string, which is
  falsy like \<^verbatim>\<open>undefined\<close>.
\<close>

definition decl :: "rule \<Rightarrow> string \<Rightarrow> string" where
  "decl r k = (case map_of (declarations r) k of Some v \<Rightarrow> v | None \<Rightarrow> [])"

text \<open>The test at the head of the loop of six detectors.\<close>

definition ignored :: "config \<Rightarrow> rule \<Rightarrow> bool" where
  "ignored cfg r =
     list_ex (\<lambda>p. includes_str (toLowerCase (selector r)) (toLowerCase p)) (ignoreSelectors cfg)"

text \<open>\<^verbatim>\<open>v && /\b\d+px\b/i.test(v)\<close>\<close>

definition fixed_px :: "string \<Rightarrow> bool" where
  "fixed_px v = (v \<noteq> [] \<and> has_px_token True v)"

definition fixedDimensions_rule :: "config \<Rightarrow> rule \<Rightarrow> issue list" where
  "fixedDimensions_rule cfg r =
     (if ignored cfg r then []
      else
        (let w = decl r ''width''; h = decl r ''height'';
             mw = decl r ''min-width''; mh = decl r ''min-height'' in
         (if fixed_px w \<and> shouldReportFixedValue cfg ''width'' (num_of (exec_float_px w))
          then [(new_issue ''Fixed width'' ''Fixed pixel width reduces responsiveness''
                   ''Constrained layout on smaller viewports'' ''medium''
                   ''Use relative units or max-width'' (selector r))
                 \<lparr> property := Some ''width'', issue_value := Some w \<rparr>]
          else [])
         @ (if fixed_px h \<and> shouldReportFixedValue cfg ''height'' (num_of (exec_float_px h))
            then [(new_issue ''Fixed height'' ''Fixed pixel height can cause overflow''
                     ''Vertical clipping on shorter viewports'' ''medium''
                     ''Use min-height or auto with constraints'' (selector r))
                   \<lparr> property := Some ''height'', issue_value := Some h \<rparr>]
            else [])
         @ (if fixed_px w \<and> fixed_px h
            then [new_issue ''Fixed box dimensions'' ''Fixed width and height create rigid boxes''
                    ''Breaks responsive scaling across devices'' ''critical''
                    ''Prefer fluid dimensions with min/max constraints'' (selector r)]
            else [])
         @ (if fixed_px mw \<or> fixed_px mh
            then [new_issue ''Fixed minimum dimension'' ''Rigid minimum size blocks content reflow''
                    ''Triggers overflow below threshold viewports'' ''medium''
                    ''Use percentages or clamp with responsive units'' (selector r)]
            else [])))"

definition detectFixedDimensions :: "config \<Rightarrow> rule list \<Rightarrow> issue list" where
  "detectFixedDimensions cfg rules = concat (map (fixedDimensions_rule cfg) rules)"

definition detectBoxModel :: "rule list \<Rightarrow> issue list" where
  "detectBoxModel rules =
     (let borderBoxCount = length (filter (\<lambda>r. test_ci ''border-box'' (decl r ''box-sizing'')) rules);
          contentBoxCount = length (filter (\<lambda>r. test_ci ''content-box'' (decl r ''box-sizing'')) rules)
      in if borderBoxCount \<noteq> 0 \<and> contentBoxCount \<noteq> 0
         then [new_issue ''Mixed box-sizing''
                 ''Mixed box-sizing leads to inconsistent sizing calculations''
                 ''Inconsistent widths across components'' ''medium''
                 ''Standardize on border-box for layout consistency'' ''*'']
         else [])"

definition overflowHorizontal_rule :: "config \<Rightarrow> rule \<Rightarrow> issue list" where
  "overflowHorizontal_rule cfg r =
     (if ignored cfg r then []
      else
        (let w = decl r ''width''; mw = decl r ''min-width''; ow = decl r ''overflow-x'';
             mL = decl r ''margin-left''; mR = decl r ''margin-right'';
             pL = decl r ''padding-left''; pR = decl r ''padding-right'';
             nowrap = decl r ''white-space'';
             fixedPads = length (filter fixed_px [mL, mR, pL, pR]) in
         (if test_ci ''visible'' ow \<and> (fixed_px w \<or> fixed_px mw)
          then [new_issue ''Horizontal overflow risk''
                  ''Visible overflow with fixed width can exceed viewport''
                  ''Horizontal scrollbars on small screens'' ''medium''
                  ''Set overflow-x hidden or use max-width'' (selector r)]
          else [])
         @ (if fixedPads \<ge> 2 \<and> fixed_px w
            then [new_issue ''Cumulative horizontal overflow''
                    ''Fixed width with fixed paddings can exceed viewport''
                    ''Content clipped or scrolls horizontally'' ''medium''
                    ''Use responsive paddings and width constraints'' (selector r)]
            else [])
         @ (if test_ci ''nowrap'' nowrap \<and> (fixed_px w \<or> fixed_px mw)
            then [new_issue ''No-wrap fixed width''
                    ''No wrapping with fixed width increases overflow risk''
                    ''Text overflows on narrow screens'' ''low''
                    ''Allow wrapping or make width responsive'' (selector r)]
            else [])))"

definition detectOverflowHorizontal :: "config \<Rightarrow> rule list \<Rightarrow> issue list" where
  "detectOverflowHorizontal cfg rules = concat (map (overflowHorizontal_rule cfg) rules)"

text \<open>
  \<open>detectMediaConflicts\<close> groups the rules by selector and, for each selector, the
  values by property. A selector or a property that names a member of
  \<^verbatim>\<open>Object.prototype\<close> makes \<^verbatim>\<open>push\<close> fail with a TypeError. One issue is pushed for a
  selector at its first property with more than one distinct value.
\<close>

definition propsMap_of :: "rule list \<Rightarrow> (string \<times> string list) list" where
  "propsMap_of blocks =
     foldl (\<lambda>pm b. foldl (\<lambda>pm kv. group_push (fst kv) (snd kv) pm) pm (declarations b)) [] blocks"

definition detectMediaConflicts :: "rule list \<Rightarrow> error + issue list" where
  "detectMediaConflicts rules =
     (if list_ex (\<lambda>r. selector r \<in> set proto_keys) rules
         \<or> list_ex (\<lambda>r. list_ex (\<lambda>kv. fst kv \<in> set proto_keys) (declarations r)) rules
      then Inl TypeError
      else
        (let bySelector = foldl (\<lambda>m r. group_push (selector r) r m) [] rules in
         Inr (concat (map (\<lambda>sel.
                (case map_of bySelector sel of
                   None \<Rightarrow> []
                 | Some blocks \<Rightarrow>
                     (if list_ex (\<lambda>kvs. length (remdups (snd kvs)) > 1) (propsMap_of blocks)
                      then [new_issue ''Media query instability''
                              ''Property values diverge between base and breakpoints''
                              ''Layout shifts unpredictably across viewports'' ''medium''
                              ''Unify values or constrain ranges to avoid divergence'' sel]
                      else [])))
              (js_keys bySelector)))))"

definition detectOverflowMaskBody :: "rule list \<Rightarrow> issue list" where
  "detectOverflowMaskBody rules =
     concat (map (\<lambda>r.
       if toLowerCase (trim (selector r)) = ''body'' \<and> test_ci ''hidden'' (decl r ''overflow-x'')
       then [new_issue ''Body overflow masking''
               ''Hiding horizontal overflow can mask structural leaks''
               ''Content clipped without visible scrollbars'' ''medium''
               ''Prefer fixing causes; avoid global overflow-x: hidden'' (selector r)]
       else []) rules)"

definition detectVwWidthRisk :: "rule list \<Rightarrow> issue list" where
  "detectVwWidthRisk rules =
     concat (map (\<lambda>r.
       if has_100vw (decl r ''width'')
       then [new_issue ''Viewport width overflow''
               ''100vw includes scrollbar width causing overflow''
               ''Horizontal scroll or clipped edges on desktops'' ''medium''
               ''Use 100% or calc(100vw - var(scrollbar))'' (selector r)]
       else []) rules)"

text \<open>
  \<open>detectBreakpointFixedWidth\<close>: the breakpoint is the first run of digits of the
  condition that \<^verbatim>\<open>px\<close> follows, after optional white space; the width is the first
  run of digits of the declaration that \<^verbatim>\<open>px\<close> follows directly. The sign for
  "at most" in the text of the correction, \<^verbatim>\<open>U+2264\<close>, is no character of \<^typ>\<open>string\<close> and
  is written \<^verbatim>\<open><=\<close> here.
\<close>

definition breakpointFixedWidth_issue :: "rule \<Rightarrow> issue" where
  "breakpointFixedWidth_issue r =
     new_issue ''Fixed width exceeds breakpoint''
       ''Width in px inside max-width media exceeds the breakpoint''
       ''Guaranteed overflow below breakpoint'' ''critical''
       ''Use fluid width or cap with max-width <= breakpoint'' (selector r)"

definition breakpointFixedWidth_rule :: "rule \<Rightarrow> issue list" where
  "breakpointFixedWidth_rule r =
     (case atRule r of
        None \<Rightarrow> []
      | Some cond \<Rightarrow>
         (case match_int_spx cond of
            None \<Rightarrow> []
          | Some m \<Rightarrow>
             (case exec_int_px (decl r ''width'') of
                None \<Rightarrow> []
              | Some px \<Rightarrow>
                  (if js_greater (parseInt px) (parseInt m) then [breakpointFixedWidth_issue r]
                   else []))))"

definition detectBreakpointFixedWidth :: "rule list \<Rightarrow> issue list" where
  "detectBreakpointFixedWidth rules = concat (map breakpointFixedWidth_rule rules)"

definition detectMediaWidthInstability :: "rule list \<Rightarrow> error + issue list" where
  "detectMediaWidthInstability rules =
     (if list_ex (\<lambda>r. atRule r \<noteq> None \<and> decl r ''width'' \<noteq> [] \<and> selector r \<in> set proto_keys) rules
      then Inl TypeError
      else
        (let mediaMap = foldl (\<lambda>m r. group_push (selector r) (decl r ''width'') m) []
                          (filter (\<lambda>r. atRule r \<noteq> None \<and> decl r ''width'' \<noteq> []) rules);
             baseMap = foldl (\<lambda>m r. if selector r = ''__proto__'' then m
                                     else obj_set (selector r) (decl r ''width'') m) []
                         (filter (\<lambda>r. atRule r = None \<and> decl r ''width'' \<noteq> []) rules)
         in Inr (concat (map (\<lambda>sel.
              (case (map_of baseMap sel, map_of mediaMap sel) of
                 (Some baseW, Some mediaWs) \<Rightarrow>
                   (if list_ex (\<lambda>mw. exec_int_px baseW \<noteq> None \<and> exec_int_px mw \<noteq> None
                                      \<and> exec_int_px baseW \<noteq> exec_int_px mw) mediaWs
                    then [new_issue ''Media query instability''
                            ''Fixed px width changes across base and media queries''
                            ''Layout width fluctuates unpredictably'' ''medium''
                            ''Use fluid widths or harmonize breakpoint widths'' sel]
                    else [])
               | _ \<Rightarrow> []))
            (js_keys mediaMap)))))"

definition flexFragility_rule :: "config \<Rightarrow> rule \<Rightarrow> issue list" where
  "flexFragility_rule cfg r =
     (if ignored cfg r then []
      else if \<not> test_ci ''flex'' (decl r ''display'') then []
      else
        (let wrap = decl r ''flex-wrap''; basis = decl r ''flex-basis''; flex = decl r ''flex'';
             grow = decl r ''flex-grow''; shrink = decl r ''flex-shrink'' in
         (if test_ci ''nowrap'' wrap \<and> (fixed_px basis \<or> (flex \<noteq> [] \<and> has_flex_shorthand flex))
             \<and> shouldReportFixedValue cfg ''flex-basis''
                  (if basis \<noteq> [] then num_of (exec_float_px basis)
                   else if flex \<noteq> [] then num_of (exec_flex_shorthand flex) else NaN)
          then [new_issue ''Non-wrapping fixed flex basis''
                  ''No wrap with fixed basis causes overflow and rigidity''
                  ''Items overflow container on small screens'' ''critical''
                  ''Enable wrapping or use responsive flex-basis'' (selector r)]
          else [])
         @ (if wrap = []
            then [new_issue ''Flex container without wrap''
                    ''Flex containers default to nowrap, risking overflow''
                    ''Children overflow on narrow screens'' ''medium''
                    ''Set flex-wrap: wrap when widths are rigid'' (selector r)]
            else [])
         @ (if grow = ''0'' \<and> shrink = ''0'' \<and> fixed_px basis
               \<and> shouldReportFixedValue cfg ''flex-basis'' (num_of (exec_float_px basis))
            then [new_issue ''Rigid flex item''
                    ''No growth or shrink with fixed basis reduces flexibility''
                    ''Poor reflow under varying viewport widths'' ''medium''
                    ''Allow shrink or use relative basis'' (selector r)]
            else [])))"

definition detectFlexFragility :: "config \<Rightarrow> rule list \<Rightarrow> issue list" where
  "detectFlexFragility cfg rules = concat (map (flexFragility_rule cfg) rules)"

definition gridRigidity_rule :: "config \<Rightarrow> rule \<Rightarrow> issue list" where
  "gridRigidity_rule cfg r =
     (if ignored cfg r then []
      else if \<not> test_ci ''grid'' (decl r ''display'') then []
      else
        (let tcols = decl r ''grid-template-columns''; acol = decl r ''grid-auto-columns'';
             trows = decl r ''grid-template-rows'' in
         if (tcols \<noteq> [] \<and> has_px_token False tcols) \<or> (trows \<noteq> [] \<and> has_px_token False trows)
            \<or> (acol \<noteq> [] \<and> has_px_token False acol)
         then (if (if effective_mode cfg = ''pragmatic''
                   then list_ex (shouldReportFixedValue cfg ''grid-track'')
                          (extractNums tcols @ extractNums trows @ extractNums acol)
                   else True)
               then [new_issue ''Rigid grid tracks''
                       ''Fixed pixel tracks reduce grid adaptability''
                       ''Grid fails to reflow on narrow or wide screens'' ''medium''
                       ''Use fr units or minmax with responsive bounds'' (selector r)]
               else [])
         else []))"

definition detectGridRigidity :: "config \<Rightarrow> rule list \<Rightarrow> issue list" where
  "detectGridRigidity cfg rules = concat (map (gridRigidity_rule cfg) rules)"

definition absoluteContainment_rule :: "config \<Rightarrow> rule \<Rightarrow> issue list" where
  "absoluteContainment_rule cfg r =
     (if ignored cfg r then []
      else if \<not> test_ci ''absolute'' (decl r ''position'') then []
      else if fixed_px (decl r ''left'') \<or> fixed_px (decl r ''right'') \<or> fixed_px (decl r ''top'')
              \<or> fixed_px (decl r ''bottom'') \<or> fixed_px (decl r ''width'')
      then [new_issue ''Absolute positioning rigidity''
              ''Absolute positions with fixed pixels reduce adaptability''
              ''Elements misalign under viewport changes'' ''medium''
              ''Prefer relative offsets or responsive units'' (selector r)]
      else [])"

definition detectAbsoluteContainment :: "config \<Rightarrow> rule list \<Rightarrow> issue list" where
  "detectAbsoluteContainment cfg rules = concat (map (absoluteContainment_rule cfg) rules)"

text \<open>
  \<open>detectAntiPatterns\<close> walks the keys of a declaration block. Both tests need a key
  that starts with a letter, so the keys that \<^verbatim>\<open>Object.keys\<close> moves to the front yield
  nothing and the issues come in the order of the block.
\<close>

definition layout_prefixes :: "string list" where
  "layout_prefixes = [''width'', ''height'', ''margin'', ''padding'', ''left'', ''right'',
     ''top'', ''bottom'', ''flex'', ''grid'']"

definition antiPatterns_decl :: "config \<Rightarrow> rule \<Rightarrow> string \<times> string \<Rightarrow> issue list" where
  "antiPatterns_decl cfg r kv =
     (if test_ci ''!important'' (snd kv)
         \<and> list_ex (\<lambda>p. starts_with p (toLowerCase (fst kv))) layout_prefixes
      then [new_issue ''Layout property with !important''
              ''Important flags on layout hinder responsive overrides''
              ''Difficult to adapt across breakpoints'' ''low''
              ''Remove !important and use specificity or cascade'' (selector r)]
      else [])
     @ (if toLowerCase (fst kv) \<in> set [''margin'', ''padding'', ''gap'']
           \<and> has_px_token True (snd kv)
           \<and> shouldReportFixedValue cfg ''spacing'' (num_of (exec_float_px (snd kv)))
        then [new_issue ''Fixed pixel spacing'' ''Fixed spacing can break scaling''
                ''Compressed or expanded layout across devices'' ''low''
                ''Use responsive units or clamp'' (selector r)]
        else [])"

definition antiPatterns_rule :: "config \<Rightarrow> rule \<Rightarrow> issue list" where
  "antiPatterns_rule cfg r =
     (if ignored cfg r then [] else concat (map (antiPatterns_decl cfg r) (declarations r)))"

definition detectAntiPatterns :: "config \<Rightarrow> rule list \<Rightarrow> issue list" where
  "detectAntiPatterns cfg rules = concat (map (antiPatterns_rule cfg) rules)"

subsection \<open>The analysis entry point\<close>

text \<open>The filter that \<open>detectIssues\<close> applies to the parsed rules before any detector runs.\<close>

definition upfront_patterns :: "config \<Rightarrow> string list" where
  "upfront_patterns cfg = map toLowerCase (filter (\<lambda>s. trim s \<noteq> []) (ignoreSelectors cfg))"

definition upfront_filter :: "config \<Rightarrow> rule list \<Rightarrow> rule list" where
  "upfront_filter cfg rules =
     (if upfront_patterns cfg \<noteq> []
      then filter (\<lambda>r. \<not> list_ex (\<lambda>p. includes_str (toLowerCase (selector r)) p)
                            (upfront_patterns cfg)) rules
      else rules)"

text \<open>The twelve detectors in the order of the source; an exception of one ends the run.\<close>

definition run_detectors :: "config \<Rightarrow> rule list \<Rightarrow> error + issue list" where
  "run_detectors cfg rules =
     (case detectMediaConflicts rules of
        Inl e \<Rightarrow> Inl e
      | Inr mediaConflicts \<Rightarrow>
         (case detectMediaWidthInstability rules of
            Inl e \<Rightarrow> Inl e
          | Inr mediaWidthInstability \<Rightarrow>
              Inr (detectFixedDimensions cfg rules @ detectBoxModel rules
                   @ detectOverflowHorizontal cfg rules @ mediaConflicts
                   @ detectOverflowMaskBody rules @ detectVwWidthRisk rules
                   @ detectBreakpointFixedWidth rules @ mediaWidthInstability
                   @ detectFlexFragility cfg rules @ detectGridRigidity cfg rules
                   @ detectAbsoluteContainment cfg rules @ detectAntiPatterns cfg rules)))"

text \<open>
  The text path of the variants \<^verbatim>\<open>less\<close> and \<^verbatim>\<open>sass\<close>: one pass over the lines. The
  issues carry the index of their line and the text of the match; the column range,
  which the source computes from the same match, is left out.
\<close>

definition text_issues_of_line :: "nat \<times> string \<Rightarrow> issue list" where
  "text_issues_of_line iln =
     (case match_decl_px ''width'' (snd iln) of
        Some w \<Rightarrow>
          [\<lparr> issue_name = ''Fixed width'',
             explanation = ''Fixed pixel width reduces responsiveness'',
             viewportImpact = ''Constrained layout on smaller viewports'',
             severity = ''medium'', correction = ''Use relative units or max-width'',
             property = Some ''width'', issue_value = Some w, issue_selector = None,
             suggestion = None, lineNumber = Some (fst iln) \<rparr>]
      | None \<Rightarrow> [])
     @ (case match_decl_px ''height'' (snd iln) of
          Some h \<Rightarrow>
            [\<lparr> issue_name = ''Fixed height'',
               explanation = ''Fixed pixel height can cause overflow'',
               viewportImpact = ''Vertical clipping on shorter viewports'',
               severity = ''medium'', correction = ''Use min-height or auto with constraints'',
               property = Some ''height'', issue_value = Some h, issue_selector = None,
               suggestion = None, lineNumber = Some (fst iln) \<rparr>]
        | None \<Rightarrow> [])"

definition detectIssuesFromText :: "string \<Rightarrow> issue list" where
  "detectIssuesFromText css =
     concat (map text_issues_of_line (enumerate 0 (split_on (CHR 0x0A) css)))"

text \<open>
  \<open>detectIssues\<close> up to the mapping of the issues to lines, which adds a position to
  each issue of the structural path and neither adds nor drops an issue.
\<close>

definition detectIssues :: "config \<Rightarrow> string \<Rightarrow> string \<Rightarrow> error + issue list" where
  "detectIssues cfg languageId css =
     (if languageId \<in> set [''less'', ''sass''] then Inr (detectIssuesFromText css)
      else run_detectors cfg (upfront_filter cfg (parseRules css)))"

text \<open>
  A selector is removed by the filter of \<open>detectIssues\<close> when it contains, without
  regard to case, an entry of the ignore list that is not blank. \<open>from_rule\<close> says that
  an issue other than the one of \<open>detectBoxModel\<close> carries the selector of one of the
  given rules.
\<close>

definition matches_ignore :: "config \<Rightarrow> string \<Rightarrow> bool" where
  "matches_ignore cfg sel =
     list_ex (\<lambda>p. trim p \<noteq> [] \<and> includes_str (toLowerCase sel) (toLowerCase p))
       (ignoreSelectors cfg)"

definition from_rule :: "rule list \<Rightarrow> issue \<Rightarrow> bool" where
  "from_rule rules x =
     (issue_name x \<noteq> ''Mixed box-sizing'' \<and>
      (\<exists>r \<in> set rules. issue_selector x = Some (selector r)))"

subsection \<open>From issues to visualizer issues\<close>

text \<open>
  The issue handed to the visualizer. Its strings are lists over the character type
  \<open>'c\<close>: characters for the conversion from a detector issue, UTF-16 code units for
  the visualizer. An absent string field is the empty string, which is falsy like
  \<^verbatim>\<open>undefined\<close>; an absent or non-numeric line is \<open>None\<close>.
\<close>

record 'c visualizerIssue =
  vi_type :: "'c list"
  vi_severity :: "'c list"
  vi_line :: "nat option"
  vi_selector :: "'c list"
  vi_property :: "'c list"
  vi_value :: "'c list"
  vi_suggestion :: "'c list"
  vi_category :: "'c list"

definition typeMap :: "(string \<times> string) list" where
  "typeMap =
     [(''Fixed width'', ''fixed-dimensions''),
      (''Fixed height'', ''fixed-dimensions''),
      (''Fixed box dimensions'', ''fixed-dimensions''),
      (''Fixed minimum dimension'', ''fixed-dimensions''),
      (''Viewport width overflow'', ''viewport-overflow''),
      (''Horizontal overflow risk'', ''overflow-horizontal''),
      (''Cumulative horizontal overflow'', ''overflow-horizontal''),
      (''No-wrap fixed width'', ''nowrap-fixed''),
      (''Non-wrapping fixed flex basis'', ''flex-fragility''),
      (''Flex container without wrap'', ''flex-fragility''),
      (''Rigid flex item'', ''flex-fragility''),
      (''Rigid grid tracks'', ''grid-rigidity''),
      (''Fixed pixel spacing'', ''fixed-spacing''),
      (''Media query instability'', ''media-instability''),
      (''Body overflow masking'', ''overflow-masking''),
      (''Fixed width exceeds breakpoint'', ''breakpoint-exceeded''),
      (''Absolute positioning rigidity'', ''absolute-rigidity''),
      (''Mixed box-sizing'', ''box-inconsistency'')]"

text \<open>The twelve diagram types, in the order of their registration in the visualizer.\<close>

definition issueTypes :: "string list" where
  "issueTypes =
     [''fixed-dimensions'', ''viewport-overflow'', ''flex-fragility'', ''grid-rigidity'',
      ''fixed-spacing'', ''media-instability'', ''overflow-masking'', ''breakpoint-exceeded'',
      ''absolute-rigidity'', ''box-inconsistency'', ''overflow-horizontal'', ''nowrap-fixed'']"

text \<open>
  What \<^verbatim>\<open>typeMap[issue.issue]\<close> reads: a type of the table, the \<^verbatim>\<open>null\<close> that the table
  of the stats model holds for "Layout property with !important", a member inherited
  from \<^verbatim>\<open>Object.prototype\<close>, or \<^verbatim>\<open>undefined\<close>.
\<close>

datatype looked_up = Own string | Null | Inherited | Undefined

definition lookup_engine :: "string \<Rightarrow> looked_up" where
  "lookup_engine name =
     (case map_of typeMap name of
        Some t \<Rightarrow> Own t
      | None \<Rightarrow> if name \<in> set proto_keys then Inherited else Undefined)"

definition lookup_stats :: "string \<Rightarrow> looked_up" where
  "lookup_stats name =
     (case map_of typeMap name of
        Some t \<Rightarrow> Own t
      | None \<Rightarrow> if name = ''Layout property with !important'' then Null
                else if name \<in> set proto_keys then Inherited else Undefined)"

definition category_of :: "string \<Rightarrow> string" where
  "category_of type =
     (if includes_str type ''flex'' then ''flex''
      else if includes_str type ''grid'' then ''grid''
      else if includes_str type ''overflow'' then ''overflow'' else ''other'')"

text \<open>\<^verbatim>\<open>x || d\<close> for a string field that may be absent.\<close>

definition opt_or :: "string option \<Rightarrow> string \<Rightarrow> string" where
  "opt_or x d = (case x of None \<Rightarrow> d | Some s \<Rightarrow> if s = [] then d else s)"

definition visualizerIssue_of :: "string \<Rightarrow> issue \<Rightarrow> char visualizerIssue" where
  "visualizerIssue_of type i =
     \<lparr> vi_type = type,
       vi_severity = (if severity i = [] then ''medium'' else severity i),
       vi_line = Some (case lineNumber i of None \<Rightarrow> 0 | Some n \<Rightarrow> n),
       vi_selector = opt_or (issue_selector i) ''element'',
       vi_property = opt_or (property i) ''width'',
       vi_value = opt_or (issue_value i) ''600px'',
       vi_suggestion = (if correction i \<noteq> [] then correction i
                        else opt_or (suggestion i) ''Use responsive units''),
       vi_category = category_of type \<rparr>"

text \<open>
  \<open>mapToVisualizerIssue_stats\<close> is the function of the stats model, which returns
  \<^verbatim>\<open>null\<close> for a kind without a type. \<open>mapToVisualizerIssue_engine\<close> is the method of
  \<^verbatim>\<open>LintEngine\<close>, which the hover provider repeats: a kind without a type gets
  \<^verbatim>\<open>'fixed-dimensions'\<close>. An inherited member is no string, so \<^verbatim>\<open>type.includes\<close> fails.
\<close>

definition mapToVisualizerIssue_stats :: "issue \<Rightarrow> error + char visualizerIssue option" where
  "mapToVisualizerIssue_stats i =
     (case lookup_stats (issue_name i) of
        Own t \<Rightarrow> Inr (Some (visualizerIssue_of t i))
      | Null \<Rightarrow> Inr None
      | Undefined \<Rightarrow> Inr None
      | Inherited \<Rightarrow> Inl TypeError)"

definition mapToVisualizerIssue_engine :: "issue \<Rightarrow> error + char visualizerIssue" where
  "mapToVisualizerIssue_engine i =
     (case lookup_engine (issue_name i) of
        Own t \<Rightarrow> Inr (visualizerIssue_of t i)
      | Null \<Rightarrow> Inr (visualizerIssue_of ''fixed-dimensions'' i)
      | Undefined \<Rightarrow> Inr (visualizerIssue_of ''fixed-dimensions'' i)
      | Inherited \<Rightarrow> Inl TypeError)"

subsection \<open>Text of the visualizer\<close>

text \<open>
  A string of the visualizer is its list of UTF-16 code units. \<open>str\<close> gives the units
  of a literal, \<open>dec\<close> the decimal digits that the conversion of a number to a string
  produces for an integer below \<open>10\<^sup>2\<^sup>1\<close>.
\<close>

type_synonym jsstr = "nat list"

definition str :: "string \<Rightarrow> jsstr" where
  "str s = map code s"

fun dec :: "nat \<Rightarrow> jsstr" where
  "dec n = (if n < 10 then [48 + n] else dec (n div 10) @ [48 + n mod 10])"

declare dec.simps [simp del]

definition join_lines :: "jsstr list \<Rightarrow> jsstr" where
  "join_lines ls = (case ls of [] \<Rightarrow> [] | l # rest \<Rightarrow> foldl (\<lambda>a b. a @ 10 # b) l rest)"

text \<open>\<^verbatim>\<open>s.split('\n')\<close>\<close>

fun split_lines :: "jsstr \<Rightarrow> jsstr list" where
  "split_lines [] = [[]]"
| "split_lines (c # cs) =
     (if c = 10 then [] # split_lines cs
      else (case split_lines cs of [] \<Rightarrow> [[c]] | h # t \<Rightarrow> (c # h) # t))"

text \<open>The character palette.\<close>

definition CHARS_SOLID :: nat where "CHARS_SOLID = 0x2588"
definition CHARS_MEDIUM :: nat where "CHARS_MEDIUM = 0x2593"
definition CHARS_LIGHT :: nat where "CHARS_LIGHT = 0x2591"
definition CHARS_H_LINE :: nat where "CHARS_H_LINE = 0x2500"
definition CHARS_V_LINE :: nat where "CHARS_V_LINE = 0x2502"
definition CHARS_TOP_LEFT :: nat where "CHARS_TOP_LEFT = 0x250C"
definition CHARS_TOP_RIGHT :: nat where "CHARS_TOP_RIGHT = 0x2510"
definition CHARS_BOTTOM_LEFT :: nat where "CHARS_BOTTOM_LEFT = 0x2514"
definition CHARS_BOTTOM_RIGHT :: nat where "CHARS_BOTTOM_RIGHT = 0x2518"
definition CHARS_RIGHT :: nat where "CHARS_RIGHT = 0x25BA"
definition CHARS_ELLIPSIS :: nat where "CHARS_ELLIPSIS = 0x2026"
definition CHARS_DOT :: nat where "CHARS_DOT = 0x2022"
definition EMOJI_CRITICAL :: nat where "EMOJI_CRITICAL = 0x2716"
definition EMOJI_MEDIUM :: nat where "EMOJI_MEDIUM = 0x26A0"
definition EMOJI_LOW :: nat where "EMOJI_LOW = 0x24D8"
definition EMOJI_PROBLEM :: nat where "EMOJI_PROBLEM = 0x2716"
definition EMOJI_SOLUTION :: nat where "EMOJI_SOLUTION = 0x2713"
definition EMOJI_ARROW :: nat where "EMOJI_ARROW = 0x2192"

subsection \<open>TextFormatter\<close>

definition isEmoji :: "nat \<Rightarrow> bool" where
  "isEmoji codePoint =
     ((0x1F300 \<le> codePoint \<and> codePoint \<le> 0x1F9FF) \<or>
      (0x2600 \<le> codePoint \<and> codePoint \<le> 0x26FF) \<or>
      (0x2700 \<le> codePoint \<and> codePoint \<le> 0x27BF) \<or>
      (0x2139 \<le> codePoint \<and> codePoint \<le> 0x2139) \<or>
      (0x2194 \<le> codePoint \<and> codePoint \<le> 0x21AA))"

text \<open>
  \<open>visualLength\<close> walks the code units: \<^verbatim>\<open>text[i]\<close> is one unit and \<open>isEmoji\<close> sees
  the value of that unit. A unit \<^verbatim>\<open>U+FE0F\<close> after an emoji is passed over.
\<close>

fun visualLength :: "jsstr \<Rightarrow> nat" where
  "visualLength [] = 0"
| "visualLength [c] = (if isEmoji c then 2 else 1)"
| "visualLength (c # d # ds) =
     (if isEmoji c then (if d = 0xFE0F then 2 + visualLength ds else 2 + visualLength (d # ds))
      else 1 + visualLength (d # ds))"

text \<open>
  \<^verbatim>\<open>for (const char of text)\<close> walks the code points: a high surrogate followed by a
  low one is one character of two units. \<open>codePointAt0\<close> is \<^verbatim>\<open>char.codePointAt(0)\<close>.
\<close>

definition is_high :: "nat \<Rightarrow> bool" where
  "is_high c = (0xD800 \<le> c \<and> c \<le> 0xDBFF)"

definition is_low :: "nat \<Rightarrow> bool" where
  "is_low c = (0xDC00 \<le> c \<and> c \<le> 0xDFFF)"

fun chars_of :: "jsstr \<Rightarrow> jsstr list" where
  "chars_of [] = []"
| "chars_of [c] = [[c]]"
| "chars_of (c # d # ds) =
     (if is_high c \<and> is_low d then [c, d] # chars_of ds else [c] # chars_of (d # ds))"

definition codePointAt0 :: "jsstr \<Rightarrow> nat" where
  "codePointAt0 ch =
     (case ch of
        [] \<Rightarrow> 0
      | [c] \<Rightarrow> c
      | c # d # _ \<Rightarrow>
          (if is_high c \<and> is_low d then 0x10000 + (c - 0xD800) * 0x400 + (d - 0xDC00) else c))"

text \<open>The loop of \<^verbatim>\<open>truncate\<close>, which is \<open>truncateText\<close> here: \<open>cur\<close> is \<^verbatim>\<open>currentLength\<close>, the result is what is kept.\<close>

fun truncate_loop :: "nat \<Rightarrow> nat \<Rightarrow> jsstr list \<Rightarrow> jsstr" where
  "truncate_loop target cur [] = []"
| "truncate_loop target cur (ch # chs) =
     (if cur + (if isEmoji (codePointAt0 ch) then 2 else 1) > target then []
      else ch @ truncate_loop target (cur + (if isEmoji (codePointAt0 ch) then 2 else 1)) chs)"

text \<open>
  \<open>charLength\<close> is the number of positions that the loop counts for one character,
  \<open>positions\<close> their sum over a list of characters.
\<close>

definition charLength :: "jsstr \<Rightarrow> nat" where
  "charLength ch = (if isEmoji (codePointAt0 ch) then 2 else 1)"

definition positions :: "jsstr list \<Rightarrow> nat" where
  "positions chs = sum_list (map charLength chs)"

definition truncateText :: "jsstr \<Rightarrow> nat \<Rightarrow> jsstr" where
  "truncateText text maxLength =
     (if visualLength text \<le> maxLength then text
      else truncate_loop (maxLength - 1) 0 (chars_of text) @ [CHARS_ELLIPSIS])"

datatype align = AlignLeft | AlignCenter | AlignRight

definition pad :: "jsstr \<Rightarrow> nat \<Rightarrow> align \<Rightarrow> jsstr" where
  "pad text width al =
     (if visualLength text \<ge> width then truncateText text width
      else (let padding = width - visualLength text in
            case al of
              AlignCenter \<Rightarrow>
                replicate (padding div 2) 32 @ text @ replicate (padding - padding div 2) 32
            | AlignRight \<Rightarrow> replicate padding 32 @ text
            | AlignLeft \<Rightarrow> text @ replicate padding 32))"

subsection \<open>LayoutCalculator\<close>

definition is_digit_u :: "nat \<Rightarrow> bool" where
  "is_digit_u c = (48 \<le> c \<and> c \<le> 57)"

definition digits_val :: "jsstr \<Rightarrow> int" where
  "digits_val ds = foldl (\<lambda>a c. 10 * a + (int c - 48)) 0 ds"

text \<open>\<^verbatim>\<open>value.match(/^(\d+(?:\.\d+)?)unit$/)\<close> followed by \<^verbatim>\<open>parseFloat\<close> of the number.\<close>

definition match_number_unit :: "jsstr \<Rightarrow> jsstr \<Rightarrow> jsnum option" where
  "match_number_unit unit v =
     (let d1 = takeWhile is_digit_u v; r1 = dropWhile is_digit_u v in
      if d1 = [] then None
      else if r1 = unit then Some (to_double (of_int (digits_val d1)))
      else (case r1 of
              c # r2 \<Rightarrow>
                (if c = 46 \<and> takeWhile is_digit_u r2 \<noteq> [] \<and> dropWhile is_digit_u r2 = unit
                 then Some (to_double (of_int (digits_val d1)
                            + of_int (digits_val (takeWhile is_digit_u r2))
                              / 10 ^ length (takeWhile is_digit_u r2)))
                 else None)
            | [] \<Rightarrow> None))"

text \<open>\<^verbatim>\<open>x / c\<close> and \<^verbatim>\<open>x * c\<close> for a positive constant \<open>c\<close>: the result is rounded.\<close>

definition js_div :: "jsnum \<Rightarrow> rat \<Rightarrow> jsnum" where
  "js_div x c = (case x of Fin a \<Rightarrow> to_double (a / c) | _ \<Rightarrow> x)"

definition js_mul :: "jsnum \<Rightarrow> rat \<Rightarrow> jsnum" where
  "js_mul x c = (case x of Fin a \<Rightarrow> to_double (a * c) | _ \<Rightarrow> x)"

definition parseValue :: "jsstr \<Rightarrow> jsnum option" where
  "parseValue v =
     (if v = [] then None
      else (case match_number_unit (str ''px'') v of
              Some x \<Rightarrow> Some x
            | None \<Rightarrow>
               (case match_number_unit (str ''vw'') v of
                  Some x \<Rightarrow> Some (js_mul (js_div x 100) 1920)
                | None \<Rightarrow>
                   (case match_number_unit (str ''%'') v of
                      Some x \<Rightarrow> Some (js_mul (js_div x 100) 1200)
                    | None \<Rightarrow> None))))"

text \<open>
  \<^verbatim>\<open>parseValue(v) || d\<close>: zero is falsy. Then \<^verbatim>\<open>Math.floor\<close>, \<^verbatim>\<open>Math.min\<close> and the
  difference of two numbers. \<open>repeat\<close> is \<^verbatim>\<open>c.repeat(n)\<close> for one character and a count
  that is finite and not negative; for another count the method of the source throws a
  \<^verbatim>\<open>RangeError\<close>, which no generator of this program can reach: its counts are constants
  or minima with a constant.
\<close>

definition value_or :: "jsnum option \<Rightarrow> rat \<Rightarrow> jsnum" where
  "value_or x d =
     (case x of
        None \<Rightarrow> Fin d
      | Some y \<Rightarrow> (case y of Fin a \<Rightarrow> if a = 0 then Fin d else Fin a | NaN \<Rightarrow> Fin d | _ \<Rightarrow> y))"

definition js_floor :: "jsnum \<Rightarrow> jsnum" where
  "js_floor x = (case x of Fin a \<Rightarrow> Fin (of_int \<lfloor>a\<rfloor>) | _ \<Rightarrow> x)"

fun js_min :: "jsnum \<Rightarrow> jsnum \<Rightarrow> jsnum" where
  "js_min NaN b = NaN"
| "js_min a NaN = NaN"
| "js_min NegInf b = NegInf"
| "js_min a NegInf = NegInf"
| "js_min PosInf b = b"
| "js_min a PosInf = a"
| "js_min (Fin a) (Fin b) = Fin (min a b)"

fun js_sub :: "jsnum \<Rightarrow> jsnum \<Rightarrow> jsnum" where
  "js_sub (Fin a) (Fin b) = to_double (a - b)"
| "js_sub NaN b = NaN"
| "js_sub a NaN = NaN"
| "js_sub PosInf PosInf = NaN"
| "js_sub NegInf NegInf = NaN"
| "js_sub PosInf b = PosInf"
| "js_sub NegInf b = NegInf"
| "js_sub (Fin a) PosInf = NegInf"
| "js_sub (Fin a) NegInf = PosInf"

definition repeat :: "nat \<Rightarrow> jsnum \<Rightarrow> jsstr" where
  "repeat c n = (case n of Fin a \<Rightarrow> replicate (nat \<lfloor>a\<rfloor>) c | _ \<Rightarrow> [])"

subsection \<open>BaseGenerator\<close>

record visualization =
  ascii :: jsstr
  width :: nat
  height :: nat

record layoutData =
  label :: jsstr
  statusEmoji :: nat
  content :: "jsstr list"
  measurements :: jsstr

definition maxWidth :: nat where
  "maxWidth = 60"

text \<open>The labels of the generators are ASCII; \<open>upper_unit\<close> is \<^verbatim>\<open>toUpperCase\<close> on them.\<close>

definition upper_unit :: "nat \<Rightarrow> nat" where
  "upper_unit c = (if 97 \<le> c \<and> c \<le> 122 then c - 32 else c)"

definition show_line :: "nat option \<Rightarrow> jsstr" where
  "show_line l = (case l of None \<Rightarrow> str ''undefined'' | Some n \<Rightarrow> dec n)"

definition getSeverityEmoji :: "jsstr \<Rightarrow> nat" where
  "getSeverityEmoji sev =
     (if sev = str ''critical'' then EMOJI_CRITICAL
      else if sev = str ''medium'' then EMOJI_MEDIUM
      else if sev = str ''low'' then EMOJI_LOW
      else EMOJI_LOW)"

definition header_title :: "jsstr \<Rightarrow> nat \<Rightarrow> nat option \<Rightarrow> jsstr" where
  "header_title typeLabel severityEmoji line =
     map upper_unit typeLabel @ [32, CHARS_DOT, 32, severityEmoji, 32, CHARS_DOT, 32]
     @ str ''L'' @ show_line line"

definition renderHeader :: "jsstr \<Rightarrow> nat \<Rightarrow> nat option \<Rightarrow> jsstr list" where
  "renderHeader typeLabel severityEmoji line =
     [CHARS_TOP_LEFT # replicate (maxWidth - 2) CHARS_H_LINE @ [CHARS_TOP_RIGHT],
      CHARS_V_LINE # pad (header_title typeLabel severityEmoji line) (maxWidth - 2) AlignLeft
        @ [CHARS_V_LINE],
      CHARS_V_LINE # replicate (maxWidth - 2) CHARS_H_LINE @ [CHARS_V_LINE]]"

text \<open>\<^verbatim>\<open>content[i] || ''\<close>\<close>

definition content_at :: "jsstr list \<Rightarrow> nat \<Rightarrow> jsstr" where
  "content_at c i = (if i < length c then c ! i else [])"

definition halfWidth :: nat where
  "halfWidth = (maxWidth - 2) div 2"

definition comparison_line :: "layoutData \<Rightarrow> layoutData \<Rightarrow> nat \<Rightarrow> jsstr" where
  "comparison_line beforeData afterData i =
     CHARS_V_LINE
     # pad (pad (content_at (content beforeData) i) halfWidth AlignLeft @ [32]
            @ pad (content_at (content afterData) i) (halfWidth - 1) AlignLeft)
         (maxWidth - 2) AlignLeft
     @ [CHARS_V_LINE]"

definition measure_line :: "layoutData \<Rightarrow> layoutData \<Rightarrow> jsstr" where
  "measure_line beforeData afterData =
     CHARS_V_LINE
     # pad (pad ([32, 32, statusEmoji beforeData, 32] @ measurements beforeData) halfWidth AlignLeft
            @ [32]
            @ pad ([statusEmoji afterData, 32] @ measurements afterData) (halfWidth - 1) AlignLeft)
         (maxWidth - 2) AlignLeft
     @ [CHARS_V_LINE]"

definition renderComparison :: "layoutData \<Rightarrow> layoutData \<Rightarrow> jsstr list" where
  "renderComparison beforeData afterData =
     [CHARS_V_LINE
      # pad ([32, 32] @ label beforeData) halfWidth AlignLeft
      @ [EMOJI_ARROW]
      @ pad (label afterData) (halfWidth - 2) AlignLeft
      @ [CHARS_V_LINE]]
     @ map (comparison_line beforeData afterData)
         [0 ..< max (length (content beforeData)) (length (content afterData))]
     @ [measure_line beforeData afterData]"

definition renderFooter :: "jsstr list" where
  "renderFooter = [CHARS_BOTTOM_LEFT # replicate (maxWidth - 2) CHARS_H_LINE @ [CHARS_BOTTOM_RIGHT]]"

definition createBeforeLayout :: "jsstr list \<Rightarrow> jsstr \<Rightarrow> layoutData" where
  "createBeforeLayout c m =
     \<lparr> label = str ''BEFORE'', statusEmoji = EMOJI_PROBLEM, content = c, measurements = m \<rparr>"

definition createAfterLayout :: "jsstr list \<Rightarrow> jsstr \<Rightarrow> layoutData" where
  "createAfterLayout c m =
     \<lparr> label = str ''AFTER'', statusEmoji = EMOJI_SOLUTION, content = c, measurements = m \<rparr>"

definition standard_lines ::
  "nat visualizerIssue \<Rightarrow> jsstr \<Rightarrow> jsstr list \<Rightarrow> jsstr list \<Rightarrow> jsstr list" where
  "standard_lines issue typeLabel beforeContent afterContent =
     renderHeader typeLabel (getSeverityEmoji (vi_severity issue)) (vi_line issue)
     @ renderComparison
         (createBeforeLayout beforeContent (vi_property issue @ str '': '' @ vi_value issue))
         (createAfterLayout afterContent
            (if vi_suggestion issue = [] then str ''Use responsive units''
             else vi_suggestion issue))
     @ renderFooter"

definition generateStandardVisualization ::
  "nat visualizerIssue \<Rightarrow> jsstr \<Rightarrow> jsstr list \<Rightarrow> jsstr list \<Rightarrow> visualization" where
  "generateStandardVisualization issue typeLabel beforeContent afterContent =
     \<lparr> ascii = join_lines (standard_lines issue typeLabel beforeContent afterContent),
       width = maxWidth,
       height = length (standard_lines issue typeLabel beforeContent afterContent) \<rparr>"

subsection \<open>The generators\<close>

text \<open>
  Each generator draws its two boxes and calls \<open>generateStandardVisualization\<close> with
  its label. \<open>box_top\<close>, \<open>box_row\<close> and \<open>box_bottom\<close> are the lines that all of them
  build from two spaces, a border and a repeated character. Nine of the twelve
  generators are given. The files of the other three, \<^verbatim>\<open>viewport-overflow.js\<close>,
  \<^verbatim>\<open>fixed-spacing.js\<close> and \<^verbatim>\<open>overflow-horizontal.js\<close>, hold lines left over after the method
  \<^verbatim>\<open>generate\<close>, inside the class and outside any method; they are no JavaScript
  programs, and their classes do not exist.
\<close>

definition box_top :: "nat \<Rightarrow> jsstr" where
  "box_top n = [32, 32, CHARS_TOP_LEFT] @ replicate n CHARS_H_LINE @ [CHARS_TOP_RIGHT]"

definition box_bottom :: "nat \<Rightarrow> jsstr" where
  "box_bottom n = [32, 32, CHARS_BOTTOM_LEFT] @ replicate n CHARS_H_LINE @ [CHARS_BOTTOM_RIGHT]"

definition box_row :: "jsstr \<Rightarrow> jsstr" where
  "box_row inner = [32, 32, CHARS_V_LINE] @ inner @ [CHARS_V_LINE]"

definition renderFixedBox :: "jsnum \<Rightarrow> jsnum \<Rightarrow> jsstr list" where
  "renderFixedBox elementWidth containerWidth =
     (let boxWidth = js_floor (js_div elementWidth 20);
          viewportWidth = js_floor (js_div containerWidth 20);
          overflow = js_greater boxWidth viewportWidth;
          visibleWidth = js_min boxWidth viewportWidth;
          overflowWidth = (if overflow then js_sub boxWidth viewportWidth else Fin 0)
      in [[32, 32, CHARS_TOP_LEFT] @ repeat CHARS_H_LINE viewportWidth @ [CHARS_TOP_RIGHT],
          [32, 32, CHARS_V_LINE] @ repeat CHARS_SOLID visibleWidth
            @ (if overflow
               then repeat CHARS_MEDIUM (js_min overflowWidth (Fin 3)) @ [CHARS_RIGHT]
               else [CHARS_V_LINE]),
          [32, 32, CHARS_BOTTOM_LEFT] @ repeat CHARS_H_LINE viewportWidth
            @ [CHARS_BOTTOM_RIGHT]])"

definition renderResponsiveBox :: "jsnum \<Rightarrow> jsstr list" where
  "renderResponsiveBox containerWidth =
     (let boxWidth = js_floor (js_div containerWidth 20)
      in [[32, 32, CHARS_TOP_LEFT] @ repeat CHARS_H_LINE boxWidth @ [CHARS_TOP_RIGHT],
          [32, 32, CHARS_V_LINE] @ repeat CHARS_SOLID boxWidth @ [CHARS_V_LINE],
          [32, 32, CHARS_BOTTOM_LEFT] @ repeat CHARS_H_LINE boxWidth @ [CHARS_BOTTOM_RIGHT]])"

definition FixedDimensionsGenerator :: "nat visualizerIssue \<Rightarrow> visualization" where
  "FixedDimensionsGenerator issue =
     generateStandardVisualization issue (str ''Fixed Dimensions'')
       (renderFixedBox (value_or (parseValue (vi_value issue)) 600) (Fin 400))
       (renderResponsiveBox (Fin 400))"

definition MediaInstabilityGenerator :: "nat visualizerIssue \<Rightarrow> visualization" where
  "MediaInstabilityGenerator issue =
     generateStandardVisualization issue (str ''Media Instability'')
       [str ''  Mobile 375px'', box_top 7,
        [32, 32, CHARS_V_LINE] @ replicate 7 CHARS_SOLID @ [CHARS_RIGHT] @ str '' breaks'',
        box_bottom 7]
       [str ''  Mobile 375px'', box_top 7,
        box_row (replicate 7 CHARS_SOLID) @ str '' stable'',
        box_bottom 7]"

definition BreakpointExceededGenerator :: "nat visualizerIssue \<Rightarrow> visualization" where
  "BreakpointExceededGenerator issue =
     generateStandardVisualization issue (str ''Breakpoint Exceeded'')
       [str ''  @media (max: 768px)'', box_top 12,
        [32, 32, CHARS_V_LINE] @ replicate 12 CHARS_SOLID
          @ replicate (min (16 - 12) 3) CHARS_MEDIUM @ [CHARS_RIGHT],
        box_bottom 12]
       [str ''  @media (max: 1024px)'', box_top 16, box_row (replicate 16 CHARS_SOLID),
        box_bottom 16]"

definition NowrapFixedGenerator :: "nat visualizerIssue \<Rightarrow> visualization" where
  "NowrapFixedGenerator issue =
     generateStandardVisualization issue (str ''Nowrap Fixed'')
       [box_top 16,
        [32, 32, CHARS_V_LINE] @ str ''Long text conte'' @ [CHARS_ELLIPSIS, CHARS_RIGHT],
        box_bottom 16]
       [box_top 16, box_row (str ''Long text conte''), box_row (str ''nt wraps here  ''),
        box_bottom 16]"

definition FlexFragilityGenerator :: "nat visualizerIssue \<Rightarrow> visualization" where
  "FlexFragilityGenerator issue =
     generateStandardVisualization issue (str ''Flex Fragility'')
       [box_top 18,
        [32, 32, CHARS_V_LINE] @ replicate 6 CHARS_SOLID @ [32] @ replicate 6 CHARS_SOLID @ [32]
          @ replicate (min 6 (18 - 14)) CHARS_SOLID @ [CHARS_RIGHT],
        box_bottom 18]
       [box_top 18,
        box_row (replicate 6 CHARS_SOLID @ [32] @ replicate 6 CHARS_SOLID
                 @ replicate (18 - 13) 32),
        box_row (replicate 6 CHARS_SOLID @ replicate (18 - 6) 32),
        box_bottom 18]"

definition GridRigidityGenerator :: "nat visualizerIssue \<Rightarrow> visualization" where
  "GridRigidityGenerator issue =
     generateStandardVisualization issue (str ''Grid Rigidity'')
       [box_top 18,
        [32, 32, CHARS_V_LINE] @ replicate 5 CHARS_SOLID @ [32] @ replicate 5 CHARS_SOLID @ [32]
          @ replicate 5 CHARS_SOLID @ [CHARS_RIGHT],
        box_bottom 18]
       [box_top 18,
        box_row (replicate 5 CHARS_SOLID @ [32] @ replicate 5 CHARS_SOLID @ [32]
                 @ replicate 5 CHARS_SOLID @ replicate (18 - (5 * 3 + 2)) 32),
        box_row (replicate 5 CHARS_SOLID @ replicate (18 - 5) 32),
        box_bottom 18]"

definition positioned_box :: "nat \<Rightarrow> jsstr list" where
  "positioned_box left =
     [box_top 18,
      box_row (replicate 18 32),
      box_row (replicate left 32 @ replicate 6 CHARS_SOLID @ replicate (18 - left - 6) 32),
      box_row (replicate 18 32),
      box_bottom 18]"

definition AbsoluteRigidityGenerator :: "nat visualizerIssue \<Rightarrow> visualization" where
  "AbsoluteRigidityGenerator issue =
     generateStandardVisualization issue (str ''Absolute Rigidity'')
       (positioned_box 10) (positioned_box 6)"

definition renderContentBox :: "jsstr list" where
  "renderContentBox =
     [box_top 16 @ [CHARS_RIGHT],
      box_row (replicate 16 CHARS_LIGHT),
      box_row (replicate 2 CHARS_LIGHT @ replicate 12 CHARS_SOLID @ replicate 2 CHARS_LIGHT),
      box_row (replicate 16 CHARS_LIGHT),
      box_bottom 16 @ [CHARS_RIGHT]]"

definition renderBorderBox :: "jsstr list" where
  "renderBorderBox =
     [box_top 12,
      box_row (replicate 12 CHARS_LIGHT),
      box_row (replicate 2 CHARS_LIGHT @ replicate (12 - 2 * 2) CHARS_SOLID
               @ replicate 2 CHARS_LIGHT),
      box_row (replicate 12 CHARS_LIGHT),
      box_bottom 12]"

definition BoxInconsistencyGenerator :: "nat visualizerIssue \<Rightarrow> visualization" where
  "BoxInconsistencyGenerator issue =
     generateStandardVisualization issue (str ''Box Inconsistency'')
       renderContentBox renderBorderBox"

definition OverflowMaskingGenerator :: "nat visualizerIssue \<Rightarrow> visualization" where
  "OverflowMaskingGenerator issue =
     generateStandardVisualization issue (str ''Overflow Masking'')
       [str ''  body {'', box_top 20, box_row (replicate 20 CHARS_SOLID),
        [32, 32, CHARS_V_LINE] @ replicate 20 CHARS_LIGHT @ [CHARS_ELLIPSIS] @ str '' hidden'',
        box_bottom 20, str ''  }'']
       [str ''  body {'', box_top 20, box_row (replicate 20 CHARS_SOLID),
        box_row (replicate 20 CHARS_SOLID), box_bottom 20, str ''  }'']"

subsection \<open>AsciiVisualizer\<close>

text \<open>
  A generator is its method \<^verbatim>\<open>generate\<close>: it returns a visualization or throws. What
  it throws is an error with a message, or a value such as \<^verbatim>\<open>null\<close> whose message cannot
  be read. The generators of this program never throw. The visualizer holds the
  instances made so far or registered by \<^verbatim>\<open>registerGenerator\<close>. A factory of
  \<^verbatim>\<open>registerGeneratorFactories\<close> loads the file of its class with \<^verbatim>\<open>require\<close> and
  constructs the object; for a file that is no program \<^verbatim>\<open>require\<close> throws a
  \<^verbatim>\<open>SyntaxError\<close>. The time of a generation is not part of the model.
\<close>

datatype failure = Failure jsstr | ThrownNull

datatype exception = SyntaxError | NoMessage

type_synonym generator = "nat visualizerIssue \<Rightarrow> failure + visualization"

definition generatorFactories :: "(jsstr \<times> (exception + generator)) list" where
  "generatorFactories =
     [(str ''fixed-dimensions'', Inr (\<lambda>i. Inr (FixedDimensionsGenerator i))),
      (str ''viewport-overflow'', Inl SyntaxError),
      (str ''flex-fragility'', Inr (\<lambda>i. Inr (FlexFragilityGenerator i))),
      (str ''grid-rigidity'', Inr (\<lambda>i. Inr (GridRigidityGenerator i))),
      (str ''fixed-spacing'', Inl SyntaxError),
      (str ''media-instability'', Inr (\<lambda>i. Inr (MediaInstabilityGenerator i))),
      (str ''overflow-masking'', Inr (\<lambda>i. Inr (OverflowMaskingGenerator i))),
      (str ''breakpoint-exceeded'', Inr (\<lambda>i. Inr (BreakpointExceededGenerator i))),
      (str ''absolute-rigidity'', Inr (\<lambda>i. Inr (AbsoluteRigidityGenerator i))),
      (str ''box-inconsistency'', Inr (\<lambda>i. Inr (BoxInconsistencyGenerator i))),
      (str ''overflow-horizontal'', Inl SyntaxError),
      (str ''nowrap-fixed'', Inr (\<lambda>i. Inr (NowrapFixedGenerator i)))]"

record asciiVisualizer =
  generatorInstances :: "jsstr \<rightharpoonup> generator"

definition new_AsciiVisualizer :: asciiVisualizer where
  "new_AsciiVisualizer = \<lparr> generatorInstances = Map.empty \<rparr>"

definition registerGenerator :: "jsstr \<Rightarrow> generator \<Rightarrow> asciiVisualizer \<Rightarrow> asciiVisualizer" where
  "registerGenerator type g vz = vz\<lparr> generatorInstances := (generatorInstances vz)(type \<mapsto> g) \<rparr>"

text \<open>The argument of \<open>isValidIssue\<close> is \<open>None\<close> for \<^verbatim>\<open>null\<close> and \<^verbatim>\<open>undefined\<close>.\<close>

definition isValidIssue :: "nat visualizerIssue option \<Rightarrow> bool" where
  "isValidIssue io =
     (case io of
        None \<Rightarrow> False
      | Some issue \<Rightarrow>
          vi_type issue \<noteq> [] \<and> vi_severity issue \<noteq> [] \<and> vi_line issue \<noteq> None \<and>
          vi_selector issue \<noteq> [] \<and> vi_property issue \<noteq> [] \<and> vi_value issue \<noteq> [])"

definition generateFallback :: "nat visualizerIssue \<Rightarrow> visualization" where
  "generateFallback issue =
     \<lparr> ascii = str ''['' @ vi_type issue @ str ''] visualization not available'',
       width = length (str ''['' @ vi_type issue @ str ''] visualization not available''),
       height = 1 \<rparr>"

definition padLine :: "jsstr \<Rightarrow> nat \<Rightarrow> jsstr" where
  "padLine text w =
     (if length text \<ge> w then take (w - 1) text @ [CHARS_ELLIPSIS]
      else text @ replicate (w - length text) 32)"

definition error_lines :: "jsstr \<Rightarrow> jsstr list" where
  "error_lines message =
     [0x250C # replicate 56 0x2500 @ [0x2510],
      [0x2502, 32, 0x26A0, 0xFE0F, 32, 32] @ str ''Visualization Error'' @ replicate 32 32
        @ [0x2502],
      0x251C # replicate 56 0x2500 @ [0x2524],
      [0x2502, 32] @ padLine message 56 @ [32, 0x2502],
      0x2514 # replicate 56 0x2500 @ [0x2518]]"

definition generateErrorVisualization :: "jsstr \<Rightarrow> visualization" where
  "generateErrorVisualization message =
     \<lparr> ascii = join_lines (error_lines message), width = 60, height = 5 \<rparr>"

text \<open>
  \<open>generate\<close> returns the visualization and the visualizer with the instance that a
  factory may have added, or it throws. The factory is called before the \<^verbatim>\<open>try\<close>, so
  what the factory throws leaves \<open>generate\<close>. The call of the generator is the body of
  the \<^verbatim>\<open>try\<close>; the handler reads the message of what was thrown and turns it into the
  error diagram, and for a thrown \<^verbatim>\<open>null\<close> the handler itself throws.
\<close>

definition instantiate :: "asciiVisualizer \<Rightarrow> jsstr \<Rightarrow> exception + asciiVisualizer" where
  "instantiate vz type =
     (if generatorInstances vz type \<noteq> None then Inr vz
      else (case map_of generatorFactories type of
              None \<Rightarrow> Inr vz
            | Some factory \<Rightarrow>
               (case factory of
                  Inl e \<Rightarrow> Inl e
                | Inr g \<Rightarrow> Inr (vz\<lparr> generatorInstances := (generatorInstances vz)(type \<mapsto> g) \<rparr>))))"

definition generate :: "asciiVisualizer \<Rightarrow> nat visualizerIssue option
                          \<Rightarrow> exception + visualization \<times> asciiVisualizer" where
  "generate vz io =
     (case io of
        None \<Rightarrow> Inr (generateErrorVisualization (str ''Invalid issue data''), vz)
      | Some issue \<Rightarrow>
          if \<not> isValidIssue io
          then Inr (generateErrorVisualization (str ''Invalid issue data''), vz)
          else
            (case instantiate vz (vi_type issue) of
               Inl e \<Rightarrow> Inl e
             | Inr vz' \<Rightarrow>
                (case generatorInstances vz' (vi_type issue) of
                   None \<Rightarrow> Inr (generateFallback issue, vz')
                 | Some generator \<Rightarrow>
                    (case generator issue of
                       Inr result \<Rightarrow> Inr (result, vz')
                     | Inl thrown \<Rightarrow>
                        (case thrown of
                           Failure msg \<Rightarrow>
                             Inr (generateErrorVisualization (str ''Generation failed: '' @ msg),
                                  vz')
                         | ThrownNull \<Rightarrow> Inl NoMessage)))))"

text \<open>The issue of the conversion with its strings as code units.\<close>

definition to_units :: "char visualizerIssue \<Rightarrow> nat visualizerIssue" where
  "to_units v =
     \<lparr> vi_type = str (vi_type v), vi_severity = str (vi_severity v), vi_line = vi_line v,
       vi_selector = str (vi_selector v), vi_property = str (vi_property v),
       vi_value = str (vi_value v), vi_suggestion = str (vi_suggestion v),
       vi_category = str (vi_category v) \<rparr>"

section \<open>Properties\<close>

subsection \<open>Threshold policy\<close>

lemma effective_mode_strict: "mode cfg = ''strict'' \<Longrightarrow> effective_mode cfg = ''strict''"
  by (simp add: effective_mode_def toLowerCase_def lower_char_def is_upper_def code_def)

lemma effective_mode_pragmatic:
  "mode cfg = ''pragmatic'' \<Longrightarrow> effective_mode cfg = ''pragmatic''"
  by (simp add: effective_mode_def toLowerCase_def lower_char_def is_upper_def code_def)

text \<open>
  Claim C1. In strict mode \<open>shouldReportFixedValue\<close> is true for every kind and every
  value, the non-finite ones included. In pragmatic mode it is true for every non-finite
  value, and for a finite value \<open>v\<close> of one of the five kinds it is true exactly when
  \<open>v\<close> is strictly greater than the threshold of the kind: the width threshold for
  width, flex-basis and grid-track, the height threshold for height, the spacing
  threshold for spacing. A value equal to the threshold is not reported.
\<close>

theorem shouldReportFixedValue_policy:
  "(mode cfg = ''strict'' \<longrightarrow> shouldReportFixedValue cfg k v) \<and>
   (mode cfg = ''pragmatic'' \<longrightarrow>
      (\<not> isFinite v \<longrightarrow> shouldReportFixedValue cfg k v) \<and>
      (k \<in> set threshold_kinds \<longrightarrow>
         shouldReportFixedValue cfg k (Fin x) = (x > kind_threshold cfg k)) \<and>
      (k \<in> set threshold_kinds \<longrightarrow>
         \<not> shouldReportFixedValue cfg k (Fin (kind_threshold cfg k))))"
proof (intro conjI impI)
  assume "mode cfg = ''strict''"
  then show "shouldReportFixedValue cfg k v"
    by (simp add: shouldReportFixedValue_def effective_mode_strict)
next
  assume "mode cfg = ''pragmatic''" and "\<not> isFinite v"
  then show "shouldReportFixedValue cfg k v"
    by (simp add: shouldReportFixedValue_def)
next
  assume m: "mode cfg = ''pragmatic''" and k: "k \<in> set threshold_kinds"
  have e: "effective_mode cfg = ''pragmatic''" using m by (rule effective_mode_pragmatic)
  show "shouldReportFixedValue cfg k (Fin x) = (x > kind_threshold cfg k)"
    using k unfolding threshold_kinds_def
    by (auto simp add: shouldReportFixedValue_def e kind_threshold_def or_zero_def)
next
  assume m: "mode cfg = ''pragmatic''" and k: "k \<in> set threshold_kinds"
  have e: "effective_mode cfg = ''pragmatic''" using m by (rule effective_mode_pragmatic)
  show "\<not> shouldReportFixedValue cfg k (Fin (kind_threshold cfg k))"
    using k unfolding threshold_kinds_def
    by (auto simp add: shouldReportFixedValue_def e kind_threshold_def or_zero_def)
qed

theorem shouldReportFixedValue_policy_witness:
  "shouldReportFixedValue (default_config\<lparr>mode := ''strict''\<rparr>) ''width'' NaN \<and>
   shouldReportFixedValue (default_config\<lparr>mode := ''pragmatic''\<rparr>) ''height'' PosInf \<and>
   shouldReportFixedValue (default_config\<lparr>mode := ''pragmatic''\<rparr>) ''flex-basis'' (Fin 321) \<and>
   \<not> shouldReportFixedValue (default_config\<lparr>mode := ''pragmatic''\<rparr>) ''width'' (Fin 320)"
proof -
  let ?s = "default_config\<lparr>mode := ''strict''\<rparr>"
  let ?p = "default_config\<lparr>mode := ''pragmatic''\<rparr>"
  have ms: "mode ?s = ''strict''" and mp: "mode ?p = ''pragmatic''" by simp_all
  have kw: "''width'' \<in> set threshold_kinds" and kf: "''flex-basis'' \<in> set threshold_kinds"
    by (simp_all add: threshold_kinds_def)
  have tw: "kind_threshold ?p ''width'' = 320" and tf: "kind_threshold ?p ''flex-basis'' = 320"
    by (simp_all add: kind_threshold_def default_config_def)
  have nf: "\<not> isFinite PosInf" by simp
  from shouldReportFixedValue_policy [of ?s "''width''" NaN 0] ms
  have a: "shouldReportFixedValue ?s ''width'' NaN" by blast
  from shouldReportFixedValue_policy [of ?p "''height''" PosInf 0] mp nf
  have b: "shouldReportFixedValue ?p ''height'' PosInf" by blast
  from shouldReportFixedValue_policy [of ?p "''flex-basis''" NaN 321] mp kf
  have "shouldReportFixedValue ?p ''flex-basis'' (Fin 321) = (321 > kind_threshold ?p ''flex-basis'')"
    by blast
  then have c: "shouldReportFixedValue ?p ''flex-basis'' (Fin 321)" by (simp add: tf)
  from shouldReportFixedValue_policy [of ?p "''width''" NaN 0] mp kw
  have "\<not> shouldReportFixedValue ?p ''width'' (Fin (kind_threshold ?p ''width''))" by blast
  then have d: "\<not> shouldReportFixedValue ?p ''width'' (Fin 320)" by (simp add: tw)
  from a b c d show ?thesis by blast
qed

subsection \<open>Detectors on the scenarios of the specification\<close>

text \<open>
  Claim C2. For the input \<^verbatim>\<open>.card { width: 500px; height: 300px; }\<close> in strict mode,
  the default, \<open>detectFixedDimensions\<close> emits exactly three issues: "Fixed width" of
  severity medium, "Fixed height" of severity medium and "Fixed box dimensions" of
  severity critical, each with the selector \<^verbatim>\<open>.card\<close>.
\<close>

theorem detectFixedDimensions_card:
  "map (\<lambda>i. (issue_name i, severity i, issue_selector i))
     (detectFixedDimensions default_config
        (parseRules ''.card { width: 500px; height: 300px; }''))
   = [(''Fixed width'', ''medium'', Some ''.card''),
      (''Fixed height'', ''medium'', Some ''.card''),
      (''Fixed box dimensions'', ''critical'', Some ''.card'')]"
  by code_simp

text \<open>
  Claim C3. On the scenario of the specification,
  \<^verbatim>\<open>@media (max-width: 768px) { .content { width: 900px; } }\<close>, \<open>detectBreakpointFixedWidth\<close>
  emits one critical issue "Fixed width exceeds breakpoint" for \<^verbatim>\<open>.content\<close>, and it emits
  nothing for the same rule outside a media block and for a width of \<^verbatim>\<open>700px\<close>. On
  decimal values the detector does not compare the width with the breakpoint: it reads
  both with \<^verbatim>\<open>(\d+)px\<close>, the run of digits next to \<^verbatim>\<open>px\<close>, which of a decimal is the part
  after the point. For the width \<^verbatim>\<open>900.5px\<close> under \<^verbatim>\<open>max-width: 768px\<close> it reads 5 and emits
  nothing, although the width exceeds the breakpoint; for the width \<^verbatim>\<open>100px\<close> under
  \<^verbatim>\<open>max-width: 767.98px\<close> it reads the breakpoint 98 and emits the issue, although the
  width does not exceed the breakpoint. \<open>detectFixedDimensions\<close> reads the same width
  \<^verbatim>\<open>900.5px\<close> with \<^verbatim>\<open>(\d+(?:\.\d+)?)px\<close> as a number above 900: in pragmatic mode with the
  width threshold 900 it reports it.
\<close>

theorem detectBreakpointFixedWidth_decimal:
  "map (\<lambda>i. (issue_name i, severity i, issue_selector i))
     (detectBreakpointFixedWidth
        (parseRules ''@media (max-width: 768px) { .content { width: 900px; } }''))
   = [(''Fixed width exceeds breakpoint'', ''critical'', Some ''.content'')] \<and>
   detectBreakpointFixedWidth (parseRules ''.content { width: 900px; }'') = [] \<and>
   detectBreakpointFixedWidth
     (parseRules ''@media (max-width: 768px) { .content { width: 700px; } }'') = [] \<and>
   detectBreakpointFixedWidth
     (parseRules ''@media (max-width: 768px) { .content { width: 900.5px; } }'') = [] \<and>
   map (\<lambda>i. (issue_name i, severity i, issue_selector i))
     (detectBreakpointFixedWidth
        (parseRules ''@media (max-width: 767.98px) { .content { width: 100px; } }''))
   = [(''Fixed width exceeds breakpoint'', ''critical'', Some ''.content'')] \<and>
   map issue_name
     (detectFixedDimensions
        (default_config\<lparr> mode := ''pragmatic'', fixedWidthThreshold := 900 \<rparr>)
        (parseRules ''@media (max-width: 768px) { .content { width: 900.5px; } }''))
   = [''Fixed width''] \<and>
   detectFixedDimensions
     (default_config\<lparr> mode := ''pragmatic'', fixedWidthThreshold := 900 \<rparr>)
     (parseRules ''@media (max-width: 768px) { .content { width: 900px; } }'') = []"
proof -
  have "map (\<lambda>i. (issue_name i, severity i, issue_selector i))
     (detectBreakpointFixedWidth
        (parseRules ''@media (max-width: 768px) { .content { width: 900px; } }''))
   = [(''Fixed width exceeds breakpoint'', ''critical'', Some ''.content'')]"
    by code_simp
  moreover have "detectBreakpointFixedWidth (parseRules ''.content { width: 900px; }'') = []"
    by code_simp
  moreover have "detectBreakpointFixedWidth
     (parseRules ''@media (max-width: 768px) { .content { width: 700px; } }'') = []"
    by code_simp
  moreover have "detectBreakpointFixedWidth
     (parseRules ''@media (max-width: 768px) { .content { width: 900.5px; } }'') = []"
    by code_simp
  moreover have "map (\<lambda>i. (issue_name i, severity i, issue_selector i))
     (detectBreakpointFixedWidth
        (parseRules ''@media (max-width: 767.98px) { .content { width: 100px; } }''))
   = [(''Fixed width exceeds breakpoint'', ''critical'', Some ''.content'')]"
    by code_simp
  moreover have "map issue_name
     (detectFixedDimensions
        (default_config\<lparr> mode := ''pragmatic'', fixedWidthThreshold := 900 \<rparr>)
        (parseRules ''@media (max-width: 768px) { .content { width: 900.5px; } }''))
   = [''Fixed width'']"
    by code_simp
  moreover have "detectFixedDimensions
     (default_config\<lparr> mode := ''pragmatic'', fixedWidthThreshold := 900 \<rparr>)
     (parseRules ''@media (max-width: 768px) { .content { width: 900px; } }'') = []"
    by code_simp
  ultimately show ?thesis by (simp only: simp_thms)
qed

subsection \<open>The parser on malformed input\<close>




































subsection \<open>The text path\<close>

lemma text_issue_in:
  assumes "i < length ls" and "x \<in> set (text_issues_of_line (i, ls ! i))"
  shows "x \<in> set (concat (map text_issues_of_line (enumerate 0 ls)))"
proof -
  have "(i, ls ! i) \<in> set (enumerate 0 ls)" using assms(1) by (simp add: in_set_enumerate_eq)
  then show ?thesis using assms(2) by auto
qed

text \<open>
  Claim C10. For the language variants \<^verbatim>\<open>less\<close> and \<^verbatim>\<open>sass\<close> the result of
  \<open>detectIssues\<close> is that of the text path, whatever the configuration is: every line
  that matches the width pattern has a "Fixed width" issue with its text and its line
  index, every line that matches the height pattern has a "Fixed height" issue, and
  neither the mode, the thresholds nor the ignore list are read. So the line
  \<^verbatim>\<open>width: 10px\<close> under the ignored selector \<^verbatim>\<open>.a\<close> is flagged in pragmatic mode
  with the width threshold 320, while the structural path reports nothing for it.
\<close>

theorem detectIssues_text_path:
  "(languageId = ''less'' \<or> languageId = ''sass'' \<longrightarrow>
      detectIssues cfg languageId css = Inr (detectIssuesFromText css)) \<and>
   (i < length (split_on (CHR 0x0A) css) \<and>
    match_decl_px ''width'' (split_on (CHR 0x0A) css ! i) = Some w \<longrightarrow>
      (\<exists>x \<in> set (detectIssuesFromText css).
         issue_name x = ''Fixed width'' \<and> severity x = ''medium'' \<and>
         issue_value x = Some w \<and> lineNumber x = Some i)) \<and>
   (i < length (split_on (CHR 0x0A) css) \<and>
    match_decl_px ''height'' (split_on (CHR 0x0A) css ! i) = Some h \<longrightarrow>
      (\<exists>x \<in> set (detectIssuesFromText css).
         issue_name x = ''Fixed height'' \<and> severity x = ''medium'' \<and>
         issue_value x = Some h \<and> lineNumber x = Some i)) \<and>
   map (\<lambda>x. (issue_name x, issue_value x, lineNumber x))
     (projr (detectIssues (default_config\<lparr>mode := ''pragmatic'', ignoreSelectors := [''.a'']\<rparr>)
        ''less'' (''.a {'' @ [CHR 0x0A] @ ''  width: 10px;'' @ [CHR 0x0A] @ ''}'')))
   = [(''Fixed width'', Some ''width: 10px'', Some 1)] \<and>
   detectIssues (default_config\<lparr>mode := ''pragmatic'', ignoreSelectors := [''.a'']\<rparr>)
        ''css'' (''.a {'' @ [CHR 0x0A] @ ''  width: 10px;'' @ [CHR 0x0A] @ ''}'') = Inr []"
proof -
  let ?ls = "split_on (CHR 0x0A) css"
  have a: "languageId = ''less'' \<or> languageId = ''sass'' \<longrightarrow>
      detectIssues cfg languageId css = Inr (detectIssuesFromText css)"
    by (auto simp add: detectIssues_def)
  have b: "i < length ?ls \<and> match_decl_px ''width'' (?ls ! i) = Some w \<longrightarrow>
      (\<exists>x \<in> set (detectIssuesFromText css).
         issue_name x = ''Fixed width'' \<and> severity x = ''medium'' \<and>
         issue_value x = Some w \<and> lineNumber x = Some i)"
  proof
    assume h: "i < length ?ls \<and> match_decl_px ''width'' (?ls ! i) = Some w"
    let ?x = "\<lparr> issue_name = ''Fixed width'',
             explanation = ''Fixed pixel width reduces responsiveness'',
             viewportImpact = ''Constrained layout on smaller viewports'',
             severity = ''medium'', correction = ''Use relative units or max-width'',
             property = Some ''width'', issue_value = Some w, issue_selector = None,
             suggestion = None, lineNumber = Some i \<rparr>"
    have "?x \<in> set (text_issues_of_line (i, ?ls ! i))"
      using h by (simp add: text_issues_of_line_def)
    then have "?x \<in> set (detectIssuesFromText css)"
      unfolding detectIssuesFromText_def using h text_issue_in by blast
    then show "\<exists>x \<in> set (detectIssuesFromText css).
         issue_name x = ''Fixed width'' \<and> severity x = ''medium'' \<and>
         issue_value x = Some w \<and> lineNumber x = Some i"
      by (intro bexI [of _ ?x]) simp_all
  qed
  have c: "i < length ?ls \<and> match_decl_px ''height'' (?ls ! i) = Some h \<longrightarrow>
      (\<exists>x \<in> set (detectIssuesFromText css).
         issue_name x = ''Fixed height'' \<and> severity x = ''medium'' \<and>
         issue_value x = Some h \<and> lineNumber x = Some i)"
  proof
    assume h: "i < length ?ls \<and> match_decl_px ''height'' (?ls ! i) = Some h"
    let ?x = "\<lparr> issue_name = ''Fixed height'',
               explanation = ''Fixed pixel height can cause overflow'',
               viewportImpact = ''Vertical clipping on shorter viewports'',
               severity = ''medium'', correction = ''Use min-height or auto with constraints'',
               property = Some ''height'', issue_value = Some h, issue_selector = None,
               suggestion = None, lineNumber = Some i \<rparr>"
    have "?x \<in> set (text_issues_of_line (i, ?ls ! i))"
      using h by (simp add: text_issues_of_line_def split: option.splits)
    then have "?x \<in> set (detectIssuesFromText css)"
      unfolding detectIssuesFromText_def using h text_issue_in by blast
    then show "\<exists>x \<in> set (detectIssuesFromText css).
         issue_name x = ''Fixed height'' \<and> severity x = ''medium'' \<and>
         issue_value x = Some h \<and> lineNumber x = Some i"
      by (intro bexI [of _ ?x]) simp_all
  qed
  have d: "map (\<lambda>x. (issue_name x, issue_value x, lineNumber x))
     (projr (detectIssues (default_config\<lparr>mode := ''pragmatic'', ignoreSelectors := [''.a'']\<rparr>)
        ''less'' (''.a {'' @ [CHR 0x0A] @ ''  width: 10px;'' @ [CHR 0x0A] @ ''}'')))
   = [(''Fixed width'', Some ''width: 10px'', Some 1)]"
    by code_simp
  have e: "detectIssues (default_config\<lparr>mode := ''pragmatic'', ignoreSelectors := [''.a'']\<rparr>)
        ''css'' (''.a {'' @ [CHR 0x0A] @ ''  width: 10px;'' @ [CHR 0x0A] @ ''}'') = Inr []"
    by code_simp
  from a b c d e show ?thesis by blast
qed

theorem detectIssues_text_path_witness:
  "detectIssues default_config ''sass'' ''a { height: 2.5px }''
     = Inr (detectIssuesFromText ''a { height: 2.5px }'') \<and>
   (\<exists>x \<in> set (detectIssuesFromText ''a { height: 2.5px }'').
      issue_name x = ''Fixed height'' \<and> severity x = ''medium'' \<and>
      issue_value x = Some ''height: 2.5px'' \<and> lineNumber x = Some 0)"
proof -
  let ?css = "''a { height: 2.5px }''"
  have l: "split_on (CHR 0x0A) ?css = [?css]" by code_simp
  have m: "match_decl_px ''height'' ?css = Some ''height: 2.5px''" by code_simp
  have h: "0 < length (split_on (CHR 0x0A) ?css) \<and>
    match_decl_px ''height'' (split_on (CHR 0x0A) ?css ! 0) = Some ''height: 2.5px''"
    using l m by simp
  from detectIssues_text_path [of "''sass''" default_config ?css 0 "[]" "''height: 2.5px''"] h
  show ?thesis by blast
qed

subsection \<open>The ignore list\<close>

lemma upfront_filter_eq:
  "upfront_filter cfg rules = filter (\<lambda>r. \<not> matches_ignore cfg (selector r)) rules"
proof -
  have e: "list_ex (\<lambda>p. includes_str s p) (upfront_patterns cfg) = matches_ignore cfg s0"
    if "s = toLowerCase s0" for s s0
    using that by (auto simp add: upfront_patterns_def matches_ignore_def list_ex_iff)
  show ?thesis
  proof (cases "upfront_patterns cfg = []")
    case True
    then have "\<not> matches_ignore cfg s" for s
      by (auto simp add: upfront_patterns_def matches_ignore_def list_ex_iff filter_empty_conv)
    then show ?thesis using True by (simp add: upfront_filter_def)
  next
    case False
    then show ?thesis by (simp add: upfront_filter_def e)
  qed
qed

lemma from_rule_concat:
  assumes "\<And>r x. r \<in> set rules \<Longrightarrow> x \<in> set (f r) \<Longrightarrow>
             issue_name x \<noteq> ''Mixed box-sizing'' \<and> issue_selector x = Some (selector r)"
    and "x \<in> set (concat (map f rules))"
  shows "from_rule rules x"
  using assms unfolding from_rule_def by auto

lemma fixedDimensions_from:
  "x \<in> set (detectFixedDimensions cfg rules) \<Longrightarrow> from_rule rules x"
  unfolding detectFixedDimensions_def
  by (erule from_rule_concat [rotated])
     (auto simp add: fixedDimensions_rule_def new_issue_def Let_def split: if_splits)

lemma overflowHorizontal_from:
  "x \<in> set (detectOverflowHorizontal cfg rules) \<Longrightarrow> from_rule rules x"
  unfolding detectOverflowHorizontal_def
  by (erule from_rule_concat [rotated])
     (auto simp add: overflowHorizontal_rule_def new_issue_def Let_def split: if_splits)

lemma overflowMaskBody_from:
  "x \<in> set (detectOverflowMaskBody rules) \<Longrightarrow> from_rule rules x"
  unfolding detectOverflowMaskBody_def
  by (erule from_rule_concat [rotated]) (auto simp add: new_issue_def split: if_splits)

lemma vwWidthRisk_from:
  "x \<in> set (detectVwWidthRisk rules) \<Longrightarrow> from_rule rules x"
  unfolding detectVwWidthRisk_def
  by (erule from_rule_concat [rotated]) (auto simp add: new_issue_def split: if_splits)

lemma breakpointFixedWidth_from:
  "x \<in> set (detectBreakpointFixedWidth rules) \<Longrightarrow> from_rule rules x"
  unfolding detectBreakpointFixedWidth_def
  by (erule from_rule_concat [rotated])
     (auto simp add: breakpointFixedWidth_rule_def breakpointFixedWidth_issue_def new_issue_def
        split: if_splits option.splits)

lemma flexFragility_from:
  "x \<in> set (detectFlexFragility cfg rules) \<Longrightarrow> from_rule rules x"
  unfolding detectFlexFragility_def
  by (erule from_rule_concat [rotated])
     (auto simp add: flexFragility_rule_def new_issue_def Let_def split: if_splits)

lemma gridRigidity_from:
  "x \<in> set (detectGridRigidity cfg rules) \<Longrightarrow> from_rule rules x"
  unfolding detectGridRigidity_def
  by (erule from_rule_concat [rotated])
     (auto simp add: gridRigidity_rule_def new_issue_def Let_def split: if_splits)

lemma absoluteContainment_from:
  "x \<in> set (detectAbsoluteContainment cfg rules) \<Longrightarrow> from_rule rules x"
  unfolding detectAbsoluteContainment_def
  by (erule from_rule_concat [rotated])
     (auto simp add: absoluteContainment_rule_def new_issue_def split: if_splits)

lemma antiPatterns_from:
  "x \<in> set (detectAntiPatterns cfg rules) \<Longrightarrow> from_rule rules x"
  unfolding detectAntiPatterns_def
  by (erule from_rule_concat [rotated])
     (auto simp add: antiPatterns_rule_def antiPatterns_decl_def new_issue_def split: if_splits)

lemma group_push_keys: "fst ` set (group_push k v m) = insert k (fst ` set m)"
  by (induction m) auto

lemma foldl_group_push_keys:
  "fst ` set (foldl (\<lambda>m r. group_push (f r) (g r) m) m0 rs) = fst ` set m0 \<union> f ` set rs"
  by (induction rs arbitrary: m0) (auto simp add: group_push_keys)

lemma js_keys_subset: "set (js_keys m) \<subseteq> fst ` set m"
  by (auto simp add: js_keys_def)

lemma mediaConflicts_from:
  "detectMediaConflicts rules = Inr xs \<Longrightarrow> x \<in> set xs \<Longrightarrow> from_rule rules x"
proof -
  assume a: "detectMediaConflicts rules = Inr xs" and b: "x \<in> set xs"
  let ?m = "foldl (\<lambda>m r. group_push (selector r) r m) [] rules"
  from a b obtain sel where s: "sel \<in> set (js_keys ?m)"
    and x: "issue_name x = ''Media query instability''" "issue_selector x = Some sel"
    by (auto simp add: detectMediaConflicts_def Let_def new_issue_def
        split: if_splits option.splits)
  from s have "sel \<in> selector ` set rules"
    using js_keys_subset [of ?m] foldl_group_push_keys [of selector "\<lambda>r. r" "[]" rules] by auto
  with x show ?thesis by (auto simp add: from_rule_def)
qed

lemma mediaWidthInstability_from:
  "detectMediaWidthInstability rules = Inr xs \<Longrightarrow> x \<in> set xs \<Longrightarrow> from_rule rules x"
proof -
  assume a: "detectMediaWidthInstability rules = Inr xs" and b: "x \<in> set xs"
  let ?rs = "filter (\<lambda>r. atRule r \<noteq> None \<and> decl r ''width'' \<noteq> []) rules"
  let ?m = "foldl (\<lambda>m r. group_push (selector r) (decl r ''width'') m) [] ?rs"
  from a b obtain sel where s: "sel \<in> set (js_keys ?m)"
    and x: "issue_name x = ''Media query instability''" "issue_selector x = Some sel"
    by (auto simp add: detectMediaWidthInstability_def Let_def new_issue_def
        split: if_splits option.splits)
  from s have "sel \<in> selector ` set ?rs"
    using js_keys_subset [of ?m]
      foldl_group_push_keys [of selector "\<lambda>r. decl r ''width''" "[]" ?rs] by auto
  with x show ?thesis by (auto simp add: from_rule_def)
qed

lemma boxModel_name:
  "x \<in> set (detectBoxModel rules) \<Longrightarrow> issue_name x = ''Mixed box-sizing''"
  by (auto simp add: detectBoxModel_def Let_def new_issue_def split: if_splits)

lemma boxModel_iff:
  "detectBoxModel rules \<noteq> [] \<longleftrightarrow>
     (\<exists>r \<in> set rules. test_ci ''border-box'' (decl r ''box-sizing'')) \<and>
     (\<exists>r \<in> set rules. test_ci ''content-box'' (decl r ''box-sizing''))"
  by (auto simp add: detectBoxModel_def Let_def filter_empty_conv)

lemma run_detectors_issues:
  assumes "run_detectors cfg rules = Inr xs"
  shows "(\<forall>x \<in> set xs. issue_name x = ''Mixed box-sizing'' \<or> from_rule rules x) \<and>
         ((\<exists>x \<in> set xs. issue_name x = ''Mixed box-sizing'') \<longleftrightarrow> detectBoxModel rules \<noteq> [])"
proof -
  from assms obtain mc mwi where mc: "detectMediaConflicts rules = Inr mc"
    and mwi: "detectMediaWidthInstability rules = Inr mwi"
    and xs: "xs = detectFixedDimensions cfg rules @ detectBoxModel rules
                   @ detectOverflowHorizontal cfg rules @ mc
                   @ detectOverflowMaskBody rules @ detectVwWidthRisk rules
                   @ detectBreakpointFixedWidth rules @ mwi
                   @ detectFlexFragility cfg rules @ detectGridRigidity cfg rules
                   @ detectAbsoluteContainment cfg rules @ detectAntiPatterns cfg rules"
    by (auto simp add: run_detectors_def split: sum.splits)
  have other: "x \<in> set xs \<Longrightarrow> x \<notin> set (detectBoxModel rules) \<Longrightarrow> from_rule rules x" for x
    unfolding xs
    using fixedDimensions_from overflowHorizontal_from mediaConflicts_from [OF mc]
      overflowMaskBody_from vwWidthRisk_from breakpointFixedWidth_from
      mediaWidthInstability_from [OF mwi] flexFragility_from gridRigidity_from
      absoluteContainment_from antiPatterns_from
    by auto
  have a: "\<forall>x \<in> set xs. issue_name x = ''Mixed box-sizing'' \<or> from_rule rules x"
    using other boxModel_name by blast
  have "(\<exists>x \<in> set xs. issue_name x = ''Mixed box-sizing'') \<longleftrightarrow> detectBoxModel rules \<noteq> []"
  proof
    assume "\<exists>x \<in> set xs. issue_name x = ''Mixed box-sizing''"
    then obtain x where x: "x \<in> set xs" "issue_name x = ''Mixed box-sizing''" by blast
    then have "x \<in> set (detectBoxModel rules)" using other by (auto simp add: from_rule_def)
    then show "detectBoxModel rules \<noteq> []" by auto
  next
    assume "detectBoxModel rules \<noteq> []"
    then obtain x where "x \<in> set (detectBoxModel rules)" by (cases "detectBoxModel rules") auto
    then show "\<exists>x \<in> set xs. issue_name x = ''Mixed box-sizing''"
      using boxModel_name unfolding xs by auto
  qed
  with a show ?thesis by blast
qed

text \<open>
  Claim C4, as stated, fails: the filter of \<open>detectIssues\<close> removes the ignored rules
  before every detector, \<open>detectBoxModel\<close> included. With the ignore list
  \<^verbatim>\<open>[".legacy"]\<close> the content-box declaration of \<^verbatim>\<open>.legacy\<close> does not count, and the
  document that yields "Mixed box-sizing" under the empty ignore list yields no issue.
\<close>

theorem detectIssues_ignore_counterexample:
  "detectIssues (default_config\<lparr>ignoreSelectors := [''.legacy'']\<rparr>) ''css''
     ''.legacy { box-sizing: content-box; } .new { box-sizing: border-box; }'' = Inr [] \<and>
   map issue_name (projr (detectIssues default_config ''css''
     ''.legacy { box-sizing: content-box; } .new { box-sizing: border-box; }''))
   = [''Mixed box-sizing'']"
  by code_simp

text \<open>
  Claim C4, amended. On the structural path \<open>detectIssues\<close> removes, before any
  detector runs, every rule whose selector contains, without regard to case, an entry
  of the ignore list that is not blank; all twelve detectors, \<open>detectBoxModel\<close> and
  \<open>detectMediaConflicts\<close> included, run on the remaining rules. So every issue other
  than "Mixed box-sizing" carries the selector of a remaining rule, and "Mixed
  box-sizing" is reported exactly when the remaining rules hold both a border-box and a
  content-box declaration.
\<close>

theorem detectIssues_ignore_upfront:
  assumes "languageId \<notin> set [''less'', ''sass'']"
    and "detectIssues cfg languageId css = Inr xs"
  shows "detectIssues cfg languageId css
           = run_detectors cfg
               (filter (\<lambda>r. \<not> matches_ignore cfg (selector r)) (parseRules css)) \<and>
         (\<forall>x \<in> set xs. issue_name x = ''Mixed box-sizing'' \<or>
            (\<exists>r \<in> set (parseRules css).
               \<not> matches_ignore cfg (selector r) \<and> issue_selector x = Some (selector r))) \<and>
         ((\<exists>x \<in> set xs. issue_name x = ''Mixed box-sizing'') \<longleftrightarrow>
            (\<exists>r \<in> set (parseRules css). \<not> matches_ignore cfg (selector r) \<and>
               test_ci ''border-box'' (decl r ''box-sizing'')) \<and>
            (\<exists>r \<in> set (parseRules css). \<not> matches_ignore cfg (selector r) \<and>
               test_ci ''content-box'' (decl r ''box-sizing'')))"
proof -
  let ?rs = "filter (\<lambda>r. \<not> matches_ignore cfg (selector r)) (parseRules css)"
  have e: "detectIssues cfg languageId css = run_detectors cfg ?rs"
    using assms(1) by (simp add: detectIssues_def upfront_filter_eq)
  with assms(2) have r: "run_detectors cfg ?rs = Inr xs" by simp
  have a: "\<forall>x \<in> set xs. issue_name x = ''Mixed box-sizing'' \<or>
            (\<exists>r \<in> set (parseRules css).
               \<not> matches_ignore cfg (selector r) \<and> issue_selector x = Some (selector r))"
    using run_detectors_issues [OF r] by (auto simp add: from_rule_def)
  have b: "(\<exists>x \<in> set xs. issue_name x = ''Mixed box-sizing'') \<longleftrightarrow>
            (\<exists>r \<in> set (parseRules css). \<not> matches_ignore cfg (selector r) \<and>
               test_ci ''border-box'' (decl r ''box-sizing'')) \<and>
            (\<exists>r \<in> set (parseRules css). \<not> matches_ignore cfg (selector r) \<and>
               test_ci ''content-box'' (decl r ''box-sizing''))"
    using run_detectors_issues [OF r] boxModel_iff [of ?rs] by auto
  from e a b show ?thesis by blast
qed

theorem detectIssues_ignore_upfront_witness:
  "map (\<lambda>x. (issue_name x, issue_selector x))
     (projr (run_detectors (default_config\<lparr>ignoreSelectors := [''.Legacy'']\<rparr>)
        (filter (\<lambda>r. \<not> matches_ignore (default_config\<lparr>ignoreSelectors := [''.Legacy'']\<rparr>)
                         (selector r))
           (parseRules ''.legacy { width: 5px } .new { height: 3px }''))))
   = [(''Fixed height'', Some ''.new'')]"
proof -
  let ?cfg = "default_config\<lparr>ignoreSelectors := [''.Legacy'']\<rparr>"
  let ?css = "''.legacy { width: 5px } .new { height: 3px }''"
  have a1: "''css'' \<notin> set [''less'', ''sass'']" by simp
  have nl: "\<not> isl (detectIssues ?cfg ''css'' ?css)" by code_simp
  then have a2: "detectIssues ?cfg ''css'' ?css = Inr (projr (detectIssues ?cfg ''css'' ?css))"
    by simp
  have v: "map (\<lambda>x. (issue_name x, issue_selector x)) (projr (detectIssues ?cfg ''css'' ?css))
             = [(''Fixed height'', Some ''.new'')]"
    by code_simp
  from detectIssues_ignore_upfront [OF a1 a2]
  have "detectIssues ?cfg ''css'' ?css
          = run_detectors ?cfg (filter (\<lambda>r. \<not> matches_ignore ?cfg (selector r)) (parseRules ?css))"
    by blast
  with v show ?thesis by simp
qed

subsection \<open>From issues to visualizer issues\<close>

text \<open>
  Claim C9. The conversion is a lookup in a fixed table from eighteen labels of the
  detectors to the twelve diagram types, and the conversion of the stats model returns
  \<^verbatim>\<open>null\<close> for a kind without a type, as the claim says: its table holds \<^verbatim>\<open>null\<close> for
  "Layout property with !important". The conversion of \<^verbatim>\<open>LintEngine\<close>, which the hover
  provider repeats, does not: it has no entry for that kind and puts
  \<^verbatim>\<open>'fixed-dimensions'\<close> in the place of a missing type. For the issue that
  \<open>detectAntiPatterns\<close> emits for \<^verbatim>\<open>.a { width: 100% !important; }\<close> the stats model
  returns \<^verbatim>\<open>null\<close>, while \<^verbatim>\<open>LintEngine\<close> returns a visualizer issue of the type
  \<^verbatim>\<open>fixed-dimensions\<close> with the placeholder value \<^verbatim>\<open>600px\<close>, for which a diagram of fixed
  dimensions is drawn.
\<close>

theorem mapToVisualizerIssue_engine_default:
  "length typeMap = 18 \<and> length issueTypes = 12 \<and>
   list_all (\<lambda>t. t \<in> set issueTypes) (map snd typeMap) \<and>
   map issue_name
     (detectAntiPatterns default_config (parseRules ''.a { width: 100% !important; }''))
   = [''Layout property with !important''] \<and>
   map mapToVisualizerIssue_stats
     (detectAntiPatterns default_config (parseRules ''.a { width: 100% !important; }''))
   = [Inr None] \<and>
   map (\<lambda>i. map_sum id (\<lambda>v. (vi_type v, vi_value v, vi_selector v))
                (mapToVisualizerIssue_engine i))
     (detectAntiPatterns default_config (parseRules ''.a { width: 100% !important; }''))
   = [Inr (''fixed-dimensions'', ''600px'', ''.a'')]"
proof -
  have "length typeMap = 18" by (simp add: typeMap_def)
  moreover have "length issueTypes = 12" by (simp add: issueTypes_def)
  moreover have "list_all (\<lambda>t. t \<in> set issueTypes) (map snd typeMap)" by code_simp
  moreover have "map issue_name
     (detectAntiPatterns default_config (parseRules ''.a { width: 100% !important; }''))
   = [''Layout property with !important'']"
    by code_simp
  moreover have "map mapToVisualizerIssue_stats
     (detectAntiPatterns default_config (parseRules ''.a { width: 100% !important; }''))
   = [Inr None]"
    by code_simp
  moreover have "map (\<lambda>i. map_sum id (\<lambda>v. (vi_type v, vi_value v, vi_selector v))
                (mapToVisualizerIssue_engine i))
     (detectAntiPatterns default_config (parseRules ''.a { width: 100% !important; }''))
   = [Inr (''fixed-dimensions'', ''600px'', ''.a'')]"
    by code_simp
  ultimately show ?thesis by (simp only: simp_thms)
qed

subsection \<open>The visualizer\<close>

lemma replicate_numeral: "replicate (numeral k) x = x # replicate (pred_numeral k) x"
  by (simp add: numeral_eq_Suc)

lemmas visualizer_defs = generate_def isValidIssue_def instantiate_def new_AsciiVisualizer_def
  registerGenerator_def generatorFactories_def str_def code_def


text \<open>
  Claim C7. \<open>generate\<close> returns the error diagram for an issue with a missing field,
  the fallback line for a type without a generator, and the error diagram with the
  message for a generator that throws an error. But it does not always return: the
  factory of a generator is called before the \<^verbatim>\<open>try\<close>, and three of the twelve
  factories load a file that is no program. For the issues of the types
  \<^verbatim>\<open>viewport-overflow\<close>, \<^verbatim>\<open>fixed-spacing\<close> and \<^verbatim>\<open>overflow-horizontal\<close> with which the
  integration test of the repository calls \<open>generate\<close>, the \<^verbatim>\<open>SyntaxError\<close> of
  \<^verbatim>\<open>require\<close> leaves \<open>generate\<close>. It also throws when a registered generator throws
  \<^verbatim>\<open>null\<close>, whose message the handler cannot read.
\<close>

theorem generate_propagates:
  "generate new_AsciiVisualizer
     (Some \<lparr> vi_type = str ''viewport-overflow'', vi_severity = str ''critical'',
             vi_line = Some 15, vi_selector = str ''#hero'', vi_property = str ''width'',
             vi_value = str ''1200px'', vi_suggestion = str ''max-width: 100vw'',
             vi_category = str ''overflow'' \<rparr>) = Inl SyntaxError \<and>
   generate new_AsciiVisualizer
     (Some \<lparr> vi_type = str ''fixed-spacing'', vi_severity = str ''low'',
             vi_line = Some 50, vi_selector = str ''.container'', vi_property = str ''padding'',
             vi_value = str ''40px'', vi_suggestion = str ''clamp(1rem, 5vw, 2.5rem)'',
             vi_category = str ''other'' \<rparr>) = Inl SyntaxError \<and>
   generate new_AsciiVisualizer
     (Some \<lparr> vi_type = str ''overflow-horizontal'', vi_severity = str ''critical'',
             vi_line = Some 120, vi_selector = str ''.wide-content'', vi_property = str ''width'',
             vi_value = str ''800px'', vi_suggestion = str ''max-width: 100%'',
             vi_category = str ''overflow'' \<rparr>) = Inl SyntaxError \<and>
   generate (registerGenerator (str ''custom'') (\<lambda>i. Inl ThrownNull) new_AsciiVisualizer)
     (Some \<lparr> vi_type = str ''custom'', vi_severity = str ''low'',
             vi_line = Some 1, vi_selector = str ''.a'', vi_property = str ''width'',
             vi_value = str ''1px'', vi_suggestion = str ''x'', vi_category = str ''other'' \<rparr>)
     = Inl NoMessage \<and>
   generate new_AsciiVisualizer
     (Some \<lparr> vi_type = str ''viewport-overflow'', vi_severity = str ''critical'',
             vi_line = Some 15, vi_selector = str ''#hero'', vi_property = str ''width'',
             vi_value = [], vi_suggestion = str ''max-width: 100vw'',
             vi_category = str ''overflow'' \<rparr>)
     = Inr (generateErrorVisualization (str ''Invalid issue data''), new_AsciiVisualizer) \<and>
   map_sum id (\<lambda>r. ascii (fst r))
     (generate new_AsciiVisualizer
        (Some \<lparr> vi_type = str ''unsupported-type'', vi_severity = str ''medium'',
                vi_line = Some 1, vi_selector = str ''.test'', vi_property = str ''width'',
                vi_value = str ''100px'', vi_suggestion = str ''test'',
                vi_category = str ''other'' \<rparr>))
     = Inr (str ''[unsupported-type] visualization not available'') \<and>
   generate (registerGenerator (str ''custom'') (\<lambda>i. Inl (Failure (str ''boom'')))
               new_AsciiVisualizer)
     (Some \<lparr> vi_type = str ''custom'', vi_severity = str ''low'',
             vi_line = Some 1, vi_selector = str ''.a'', vi_property = str ''width'',
             vi_value = str ''1px'', vi_suggestion = str ''x'',
             vi_category = str ''other'' \<rparr>)
     = Inr (generateErrorVisualization (str ''Generation failed: boom''),
            registerGenerator (str ''custom'') (\<lambda>i. Inl (Failure (str ''boom'')))
              new_AsciiVisualizer)"
  by (simp add: visualizer_defs generateFallback_def)

lemmas diagram_defs = pad_def truncateText_def isEmoji_def codePointAt0_def is_high_def is_low_def
  replicate_numeral CHARS_SOLID_def CHARS_MEDIUM_def CHARS_LIGHT_def CHARS_H_LINE_def
  CHARS_V_LINE_def CHARS_TOP_LEFT_def CHARS_TOP_RIGHT_def CHARS_BOTTOM_LEFT_def
  CHARS_BOTTOM_RIGHT_def CHARS_RIGHT_def CHARS_ELLIPSIS_def CHARS_DOT_def EMOJI_CRITICAL_def
  EMOJI_MEDIUM_def EMOJI_LOW_def EMOJI_PROBLEM_def EMOJI_SOLUTION_def EMOJI_ARROW_def
  maxWidth_def halfWidth_def box_top_def box_bottom_def box_row_def
  renderHeader_def header_title_def upper_unit_def show_line_def getSeverityEmoji_def
  renderComparison_def comparison_line_def measure_line_def content_at_def renderFooter_def
  createBeforeLayout_def createAfterLayout_def standard_lines_def
  generateStandardVisualization_def join_lines_def dec.simps upt_conv_Cons


text \<open>
  Claim C5. The lines of a diagram are cut by \<open>truncateText\<close>, which counts one
  position for a character outside the Basic Multilingual Plane, while the length of a
  line counts its two code units; and a line feed in the value of an issue is copied
  into its line. For the issue of the type \<^verbatim>\<open>media-instability\<close> of the integration test
  with thirty characters \<^verbatim>\<open>U+20000\<close> as its value, the line of the measurements has 74
  code units; with twelve line feeds and \<^verbatim>\<open>1px\<close> as its value, the diagram has 22 lines.
\<close>

theorem diagram_size_exceeded:
  "map_sum id (\<lambda>r. map length (split_lines (ascii (fst r))))
     (generate new_AsciiVisualizer
        (Some \<lparr> vi_type = str ''media-instability'', vi_severity = str ''medium'',
                vi_line = Some 67, vi_selector = str ''.responsive'', vi_property = str ''width'',
                vi_value = concat (replicate 30 [0xD840, 0xDC00]),
                vi_suggestion = str ''@media (min-width: 48em)'',
                vi_category = str ''other'' \<rparr>))
   = Inr [60, 59, 60, 59, 60, 60, 60, 60, 74, 60] \<and>
   map_sum id (\<lambda>r. length (split_lines (ascii (fst r))))
     (generate new_AsciiVisualizer
        (Some \<lparr> vi_type = str ''media-instability'', vi_severity = str ''medium'',
                vi_line = Some 67, vi_selector = str ''.responsive'', vi_property = str ''width'',
                vi_value = replicate 12 10 @ str ''1px'',
                vi_suggestion = str ''@media (min-width: 48em)'',
                vi_category = str ''other'' \<rparr>))
   = Inr 22"
  by (simp add: visualizer_defs MediaInstabilityGenerator_def diagram_defs)

end
